theory Spec2Isabelle
  imports Complex_Main
begin

section \<open>The multiscale singularity index of \<^verbatim>\<open>src/cne/singularity_index.py\<close>\<close>

text \<open>
  The module holds the class \<^verbatim>\<open>SingularityIndexFilters\<close> (a bank of convolution kernels
  built from \<^verbatim>\<open>minScale\<close>) and the function \<^verbatim>\<open>applyMMSI\<close> (the per-scale filtering loop
  and the aggregation across scales).

  Conventions of the embedding.
  \<^item> A \<^verbatim>\<open>float64\<close> is an element of \<^typ>\<open>real\<close>: rounding, infinities and NaN are not
    modelled. Every statement below is about this idealised arithmetic.
  \<^item> A numpy array is a record of its dtype, its shape and its elements in row-major order.
    Elementwise operations act on the element lists; the operands of every such
    operation in the source have equal shapes, so broadcasting of unequal shapes is
    not modelled (the one outer product is written out).
  \<^item> Every \<^verbatim>\<open>raise\<close> of the module and every exception of the Python operations it uses
    is a value of \<open>error\<close>; a computation returns \<open>error + 'a\<close>.
  \<^item> OpenCV and SciPy are not part of the module. Their four entry points are fields of
    a record \<open>libs\<close> that every function takes as a parameter; what the theorems need of
    them is stated as explicit contracts.
  \<^item> The module is Python 2. \<^verbatim>\<open>minScale\<close> is a float, as its default 1.5 is, and
    \<^verbatim>\<open>nrScales\<close> an integer; the quotients of Python scalars are then float divisions.
  \<^item> The \<^verbatim>\<open>print\<close> of the loop is left out.
\<close>

subsection \<open>Errors\<close>

datatype error =
    UnsupportedShape
      \<comment> \<open>\<^verbatim>\<open>ValueError('This function inputs only a singe channel image')\<close>, line 100\<close>
  | UnpackError
      \<comment> \<open>the \<^verbatim>\<open>ValueError\<close> of the tuple assignment \<^verbatim>\<open>R, C = I1.shape\<close>, line 102\<close>
  | UnboundLocalError string
      \<comment> \<open>a local variable read before any assignment\<close>
  | ZeroDivisionError
      \<comment> \<open>division of Python scalars by zero\<close>
  | LinspaceError
      \<comment> \<open>\<^verbatim>\<open>np.linspace\<close> with a negative number of samples\<close>
  | LibraryError string
      \<comment> \<open>an exception of the named OpenCV or SciPy function\<close>

definition err_bind :: "error + 'a \<Rightarrow> ('a \<Rightarrow> error + 'b) \<Rightarrow> error + 'b" where
  "err_bind m k = (case m of Inl e \<Rightarrow> Inl e | Inr x \<Rightarrow> k x)"

subsection \<open>Arrays\<close>

datatype dtype = UInt8 | UInt16 | Float64 | OtherDtype

record ndarray =
  dtype :: dtype
  shape :: "nat list"
  data :: "real list"

definition amap :: "(real \<Rightarrow> real) \<Rightarrow> ndarray \<Rightarrow> ndarray" where
  "amap g a = \<lparr>dtype = Float64, shape = shape a, data = map g (data a)\<rparr>"

definition amap2 :: "(real \<Rightarrow> real \<Rightarrow> real) \<Rightarrow> ndarray \<Rightarrow> ndarray \<Rightarrow> ndarray" where
  "amap2 g a b = \<lparr>dtype = Float64, shape = shape a, data = map2 g (data a) (data b)\<rparr>"

definition a_add :: "ndarray \<Rightarrow> ndarray \<Rightarrow> ndarray" where
  "a_add = amap2 (\<lambda>x y. x + y)"

definition a_sub :: "ndarray \<Rightarrow> ndarray \<Rightarrow> ndarray" where
  "a_sub = amap2 (\<lambda>x y. x - y)"

definition a_mul :: "ndarray \<Rightarrow> ndarray \<Rightarrow> ndarray" where
  "a_mul = amap2 (\<lambda>x y. x * y)"

definition a_div :: "ndarray \<Rightarrow> ndarray \<Rightarrow> ndarray" where
  "a_div = amap2 (\<lambda>x y. x / y)"

definition a_sq :: "ndarray \<Rightarrow> ndarray" where
  "a_sq = amap (\<lambda>x. x ^ 2)"

definition a_scale :: "real \<Rightarrow> ndarray \<Rightarrow> ndarray" where
  "a_scale c = amap (\<lambda>x. c * x)"

text \<open>\<^verbatim>\<open>a > b\<close> on arrays: the boolean mask.\<close>

definition a_gt :: "ndarray \<Rightarrow> ndarray \<Rightarrow> bool list" where
  "a_gt a b = map2 (\<lambda>x y. x > y) (data a) (data b)"

definition a_pos :: "ndarray \<Rightarrow> bool list" where
  "a_pos a = map (\<lambda>x. x > 0) (data a)"

text \<open>
  Boolean indexing. \<^verbatim>\<open>a[mask]\<close> is the list of the elements of \<open>a\<close> at the positions
  where the mask holds, in order; \<^verbatim>\<open>a[mask] = vs\<close> writes the values \<open>vs\<close>, in order, to
  those positions of \<open>a\<close> and leaves the others.
\<close>

fun take_mask :: "real list \<Rightarrow> bool list \<Rightarrow> real list" where
  "take_mask (x # xs) (m # ms) = (if m then x # take_mask xs ms else take_mask xs ms)"
| "take_mask _ _ = []"

fun put_mask :: "real list \<Rightarrow> bool list \<Rightarrow> real list \<Rightarrow> real list" where
  "put_mask (x # xs) (True # ms) (v # vs) = v # put_mask xs ms vs"
| "put_mask (x # xs) (True # ms) [] = x # put_mask xs ms []"
| "put_mask (x # xs) (False # ms) vs = x # put_mask xs ms vs"
| "put_mask xs [] vs = xs"
| "put_mask [] ms vs = []"

definition getitem_mask :: "ndarray \<Rightarrow> bool list \<Rightarrow> real list" where
  "getitem_mask a msk = take_mask (data a) msk"

definition setitem_mask :: "ndarray \<Rightarrow> bool list \<Rightarrow> real list \<Rightarrow> ndarray" where
  "setitem_mask a msk vs = a\<lparr>data := put_mask (data a) msk vs\<rparr>"

text \<open>\<^verbatim>\<open>a[mask] = c\<close> with a scalar \<open>c\<close>.\<close>

definition setitem_mask_scalar :: "ndarray \<Rightarrow> bool list \<Rightarrow> real \<Rightarrow> ndarray" where
  "setitem_mask_scalar a msk c =
     a\<lparr>data := put_mask (data a) msk (replicate (length (data a)) c)\<rparr>"

text \<open>\<^verbatim>\<open>a.T\<close> of a column or row vector: the elements stay, the shape is reversed.\<close>

definition arr_T :: "ndarray \<Rightarrow> ndarray" where
  "arr_T a = a\<lparr>shape := rev (shape a)\<rparr>"

text \<open>\<^verbatim>\<open>I1.astype('float') / c\<close>.\<close>

definition astype_float_div :: "ndarray \<Rightarrow> real \<Rightarrow> ndarray" where
  "astype_float_div a c = \<lparr>dtype = Float64, shape = shape a, data = map (\<lambda>x. x / c) (data a)\<rparr>"

subsection \<open>Python and numpy scalars\<close>

text \<open>\<^verbatim>\<open>int(x)\<close> of a float truncates towards zero.\<close>

definition py_int :: "real \<Rightarrow> int" where
  "py_int x = (if 0 \<le> x then \<lfloor>x\<rfloor> else \<lceil>x\<rceil>)"

text \<open>Division of Python scalars raises on a zero divisor; division of arrays does not.\<close>

definition py_div :: "real \<Rightarrow> real \<Rightarrow> error + real" where
  "py_div a b = (if b = 0 then Inl ZeroDivisionError else Inr (a / b))"

text \<open>\<^verbatim>\<open>range(a, b)\<close>.\<close>

definition py_range :: "int \<Rightarrow> int \<Rightarrow> int list" where
  "py_range a b = [a..b - 1]"

text \<open>\<^verbatim>\<open>np.arctan2(y, x)\<close>, with values in \<open>(-\<pi>, \<pi>]\<close>.\<close>

definition arctan2 :: "real \<Rightarrow> real \<Rightarrow> real" where
  "arctan2 y x =
     (if 0 < x then arctan (y / x)
      else if x < 0 then (if 0 \<le> y then arctan (y / x) + pi else arctan (y / x) - pi)
      else if 0 < y then pi / 2
      else if y < 0 then - (pi / 2)
      else 0)"

text \<open>
  \<^verbatim>\<open>X, Y = np.meshgrid(xs, ys)\<close>: both have shape \<open>(len(ys), len(xs))\<close>; row \<open>i\<close> of
  \<open>X\<close> is \<open>xs\<close>, row \<open>i\<close> of \<open>Y\<close> is \<open>ys[i]\<close> repeated.
\<close>

definition np_meshgrid :: "int list \<Rightarrow> int list \<Rightarrow> ndarray \<times> ndarray" where
  "np_meshgrid xs ys =
     (\<lparr>dtype = OtherDtype, shape = [length ys, length xs],
       data = concat (map (\<lambda>y. map (\<lambda>x. real_of_int x) xs) ys)\<rparr>,
      \<lparr>dtype = OtherDtype, shape = [length ys, length xs],
       data = concat (map (\<lambda>y. map (\<lambda>x. real_of_int y) xs) ys)\<rparr>)"

text \<open>\<^verbatim>\<open>np.linspace(start, stop, num)\<close>, endpoint included.\<close>

definition np_linspace :: "real \<Rightarrow> real \<Rightarrow> int \<Rightarrow> error + ndarray" where
  "np_linspace start stop num =
     (if num < 0 then Inl LinspaceError
      else Inr \<lparr>dtype = Float64, shape = [nat num],
                data = map (\<lambda>i. start + real i * ((stop - start) / real (nat num - 1)))
                            [0..<nat num]\<rparr>)"

text \<open>\<^verbatim>\<open>np.reshape(x, (1, -1))\<close>.\<close>

definition np_reshape_row :: "ndarray \<Rightarrow> ndarray" where
  "np_reshape_row a = a\<lparr>shape := [1, length (data a)]\<rparr>"

text \<open>
  \<^verbatim>\<open>col * col.T\<close> for a column \<open>(n, 1)\<close>: numpy broadcasts the two operands to the
  \<open>(n, n)\<close> array of all products.
\<close>

definition np_outer :: "ndarray \<Rightarrow> ndarray \<Rightarrow> ndarray" where
  "np_outer col row =
     \<lparr>dtype = Float64, shape = [length (data col), length (data row)],
      data = concat (map (\<lambda>a. map (\<lambda>b. a * b) (data row)) (data col))\<rparr>"

subsection \<open>The library interface\<close>

datatype interpolation = INTER_CUBIC | INTER_NEAREST

text \<open>
  \<^item> \<open>cv2_getGaussianKernel n sigma\<close>: \<^verbatim>\<open>cv2.getGaussianKernel(n, sigma)\<close>;
  \<^item> \<open>cv2_sepFilter2D src kx ky\<close>: \<^verbatim>\<open>cv2.sepFilter2D(src, cv2.CV_64FC1, kx, ky,
    borderType=cv2.BORDER_REFLECT_101)\<close>;
  \<^item> \<open>cv2_resize src (w, h) interp\<close>: \<^verbatim>\<open>cv2.resize(src, (w, h), interpolation=interp)\<close>
    for a non-empty size;
  \<^item> \<open>fftconvolve_same a k\<close>: \<^verbatim>\<open>fftconvolve(a, k, mode='same')\<close>.

  \<open>None\<close> is an exception raised by the library.
\<close>

record libs =
  cv2_getGaussianKernel :: "int \<Rightarrow> real \<Rightarrow> ndarray option"
  cv2_sepFilter2D :: "ndarray \<Rightarrow> ndarray \<Rightarrow> ndarray \<Rightarrow> ndarray option"
  cv2_resize :: "ndarray \<Rightarrow> nat \<times> nat \<Rightarrow> interpolation \<Rightarrow> ndarray option"
  fftconvolve_same :: "ndarray \<Rightarrow> ndarray \<Rightarrow> ndarray option"

definition lib_call :: "string \<Rightarrow> 'a option \<Rightarrow> error + 'a" where
  "lib_call name r = (case r of None \<Rightarrow> Inl (LibraryError name) | Some x \<Rightarrow> Inr x)"

definition getGaussianKernel :: "libs \<Rightarrow> int \<Rightarrow> real \<Rightarrow> error + ndarray" where
  "getGaussianKernel L n sigma = lib_call ''getGaussianKernel'' (cv2_getGaussianKernel L n sigma)"

definition sepFilter2D :: "libs \<Rightarrow> ndarray \<Rightarrow> ndarray \<Rightarrow> ndarray \<Rightarrow> error + ndarray" where
  "sepFilter2D L src kx ky = lib_call ''sepFilter2D'' (cv2_sepFilter2D L src kx ky)"

definition fftconvolve :: "libs \<Rightarrow> ndarray \<Rightarrow> ndarray \<Rightarrow> error + ndarray" where
  "fftconvolve L a k = lib_call ''fftconvolve'' (fftconvolve_same L a k)"

text \<open>
  \<^verbatim>\<open>cv2.resize\<close> is called with an explicit size and no scale factors; OpenCV rejects
  a size with a non-positive component.
\<close>

definition resize :: "libs \<Rightarrow> ndarray \<Rightarrow> int \<times> int \<Rightarrow> interpolation \<Rightarrow> error + ndarray" where
  "resize L src dsize interp =
     (case dsize of (w, h) \<Rightarrow>
        if w \<le> 0 \<or> h \<le> 0 then Inl (LibraryError ''resize'')
        else lib_call ''resize'' (cv2_resize L src (nat w, nat h) interp))"

subsection \<open>The filter bank\<close>

record SingularityIndexFilters =
  minScale :: real
  nrScales :: int
  Gdebias :: ndarray
  G01d :: ndarray
  G20 :: ndarray
  G260 :: ndarray
  G2120 :: ndarray
  G0_a :: ndarray
  G1 :: ndarray
  isCreated :: bool

text \<open>The sigmas and kernel half sizes of \<^verbatim>\<open>_createFilters\<close>, lines 36 to 44.\<close>

definition sigmad :: "real \<Rightarrow> real" where
  "sigmad ms = 5 * ms"

definition ksized :: "real \<Rightarrow> int" where
  "ksized ms = py_int (sigmad ms * 3)"

definition sigma2 :: "real \<Rightarrow> real" where
  "sigma2 ms = ms"

definition sigma1 :: "real \<Rightarrow> real" where
  "sigma1 ms = ms * 1.7754"

definition ksize2 :: "real \<Rightarrow> int" where
  "ksize2 ms = py_int (sigma2 ms * 3) + 1"

definition ksize1 :: "real \<Rightarrow> int" where
  "ksize1 ms = py_int (sigma1 ms * 3) + 1"

definition theta1 :: real where "theta1 = 0"
definition theta2 :: real where "theta2 = pi / 3"
definition theta3 :: real where "theta3 = 2 * pi / 3"

text \<open>\<^verbatim>\<open>X*np.cos(theta) - Y*np.sin(theta)\<close>, lines 53 to 55.\<close>

definition rotated_coord :: "ndarray \<Rightarrow> ndarray \<Rightarrow> real \<Rightarrow> ndarray" where
  "rotated_coord X Y theta =
     a_sub (amap (\<lambda>x. x * cos theta) X) (amap (\<lambda>y. y * sin theta) Y)"

text \<open>
  \<^verbatim>\<open>(((u**2)/(sigma2**4)) - (1/(sigma2**2))) * G0\<close>, lines 63 to 65. The first quotient
  divides an array and cannot raise; \<open>inv_s2\<close> is the value of the scalar quotient
  \<^verbatim>\<open>1/(sigma2**2)\<close>, computed by the caller.
\<close>

definition second_derivative :: "ndarray \<Rightarrow> real \<Rightarrow> real \<Rightarrow> ndarray \<Rightarrow> ndarray" where
  "second_derivative u s2 inv_s2 G0 =
     a_mul (amap (\<lambda>x. x - inv_s2) (amap (\<lambda>x. x / s2 ^ 4) (a_sq u))) G0"

definition createFilters :: "libs \<Rightarrow> real \<Rightarrow> int \<Rightarrow> error + SingularityIndexFilters" where
  "createFilters L ms n =
     err_bind (getGaussianKernel L (2 * ksized ms + 1) (sigmad ms)) (\<lambda>Gd.
     case np_meshgrid (py_range (- ksize2 ms) (ksize2 ms + 1))
                      (py_range (- ksize2 ms) (ksize2 ms + 1)) of (X, Y) \<Rightarrow>
     let u1 = rotated_coord X Y theta1;
         u2 = rotated_coord X Y theta2;
         u3 = rotated_coord X Y theta3 in
     err_bind (getGaussianKernel L (2 * ksize2 ms + 1) (sigma2 ms)) (\<lambda>G.
     let G0 = np_outer G (arr_T G) in
     err_bind (py_div 1 (sigma2 ms ^ 2)) (\<lambda>inv_s2.
     let K20 = second_derivative u1 (sigma2 ms) inv_s2 G0;
         K260 = second_derivative u2 (sigma2 ms) inv_s2 G0;
         K2120 = second_derivative u3 (sigma2 ms) inv_s2 G0 in
     err_bind (np_linspace (real_of_int (- ksize1 ms)) (real_of_int (ksize1 ms))
                 (2 * ksize1 ms + 1)) (\<lambda>x_1.
     let x_1 = np_reshape_row x_1 in
     err_bind (getGaussianKernel L (2 * ksize1 ms + 1) (sigma1 ms)) (\<lambda>Ga.
     err_bind (py_div 1 (sigma1 ms)) (\<lambda>inv_s1.
     Inr \<lparr>minScale = ms, nrScales = n, Gdebias = Gd, G01d = G,
          G20 = K20, G260 = K260, G2120 = K2120, G0_a = Ga,
          G1 = a_mul (a_scale (- (inv_s1 ^ 2)) x_1) (arr_T Ga),
          isCreated = True\<rparr>))))))"

text \<open>
  \<^verbatim>\<open>SingularityIndexFilters(minScale, nrScales)\<close>: \<^verbatim>\<open>__init__\<close> stores the two
  parameters and calls \<^verbatim>\<open>_createFilters\<close>; it inspects neither.
\<close>

definition init_filters :: "libs \<Rightarrow> real \<Rightarrow> int \<Rightarrow> error + SingularityIndexFilters" where
  "init_filters L ms n = createFilters L ms n"

subsection \<open>One scale of \<^verbatim>\<open>applyMMSI\<close>\<close>

text \<open>
  Lines 108 to 152: the body of the loop up to the resized response \<open>psi_scale\<close> and
  orientation \<open>angles\<close> of scale \<open>s\<close>. \<open>R\<close> and \<open>C\<close> are the rows and columns of the
  input; \<open>I1\<close> is the image as the previous scale left it. The result is the new
  \<open>I1\<close>, \<open>psi_scale\<close> and \<open>angles\<close>.
\<close>

definition orientation_Nr :: "ndarray \<Rightarrow> ndarray \<Rightarrow> ndarray \<Rightarrow> ndarray" where
  "orientation_Nr J20 J260 J2120 =
     a_scale (sqrt 3)
       (a_sub (a_add (a_sub (a_sq J260) (a_sq J2120)) (a_mul J20 J260)) (a_mul J20 J2120))"

definition orientation_Dr :: "ndarray \<Rightarrow> ndarray \<Rightarrow> ndarray \<Rightarrow> ndarray" where
  "orientation_Dr J20 J260 J2120 =
     a_add
       (a_sub
          (a_add (a_sub (a_sub (a_scale 2 (a_sq J20)) (a_sq J260)) (a_sq J2120))
             (a_mul J20 J260))
          (a_scale 2 (a_mul J260 J2120)))
       (a_mul J20 J2120)"

definition dominant_angles :: "ndarray \<Rightarrow> ndarray \<Rightarrow> ndarray" where
  "dominant_angles Nr Dr = amap (\<lambda>x. x / 2) (amap2 arctan2 Nr Dr)"

definition directional_J1 :: "ndarray \<Rightarrow> ndarray \<Rightarrow> ndarray \<Rightarrow> ndarray" where
  "directional_J1 J0u J90u angles =
     a_add (a_mul J0u (amap cos angles)) (a_mul J90u (amap sin angles))"

definition directional_J2 :: "ndarray \<Rightarrow> ndarray \<Rightarrow> ndarray \<Rightarrow> ndarray \<Rightarrow> ndarray" where
  "directional_J2 angles J20 J260 J2120 =
     amap (\<lambda>x. x / 3)
       (a_add
          (a_add
             (a_mul (amap (\<lambda>a. 1 + 2 * cos (2 * a)) angles) J20)
             (a_mul (amap (\<lambda>a. 1 - cos (2 * a) + sqrt 3 * sin (2 * a)) angles) J260))
          (a_mul (amap (\<lambda>a. 1 - cos (2 * a) - sqrt 3 * sin (2 * a)) angles) J2120))"

text \<open>
  Lines 143 to 147: \<^verbatim>\<open>np.abs(J0)*J2 / (1 + np.abs(J1)**2)\<close>, then the positive
  entries are set to zero in place and the array is negated.
\<close>

definition singularity_index :: "ndarray \<Rightarrow> ndarray \<Rightarrow> ndarray \<Rightarrow> ndarray" where
  "singularity_index J0 J1 J2 =
     (let psi_scale = a_div (a_mul (amap abs J0) J2) (amap (\<lambda>x. 1 + \<bar>x\<bar> ^ 2) J1);
          psi_scale = setitem_mask_scalar psi_scale (a_pos psi_scale) 0
      in amap uminus psi_scale)"

text \<open>The size \<^verbatim>\<open>int(n/(np.sqrt(2)**s))\<close> that scale \<open>s\<close> resizes a side of length \<open>n\<close> to.\<close>

definition scaled_side :: "nat \<Rightarrow> nat \<Rightarrow> int" where
  "scaled_side n s = py_int (real n / sqrt 2 ^ s)"

definition scale_pass ::
  "libs \<Rightarrow> SingularityIndexFilters \<Rightarrow> nat \<Rightarrow> nat \<Rightarrow> nat \<Rightarrow> ndarray
     \<Rightarrow> error + (ndarray \<times> ndarray \<times> ndarray)" where
  "scale_pass L f R C s I1 =
     err_bind
       (if s > 0
        then resize L I1 (scaled_side C s, scaled_side R s) INTER_CUBIC
        else Inr I1) (\<lambda>I1.
     err_bind (sepFilter2D L I1 (Gdebias f) (arr_T (Gdebias f))) (\<lambda>mu.
     let I = a_sub I1 mu in
     err_bind (fftconvolve L I (G20 f)) (\<lambda>J20.
     err_bind (fftconvolve L I (G260 f)) (\<lambda>J260.
     err_bind (fftconvolve L I (G2120 f)) (\<lambda>J2120.
     let Nr = orientation_Nr J20 J260 J2120;
         Dr = orientation_Dr J20 J260 J2120;
         angles = dominant_angles Nr Dr in
     err_bind (sepFilter2D L I (arr_T (G1 f)) (arr_T (G0_a f))) (\<lambda>J0u.
     err_bind (sepFilter2D L I (G0_a f) (G1 f)) (\<lambda>J90u.
     err_bind (sepFilter2D L I (G01d f) (arr_T (G01d f))) (\<lambda>J0.
     let J1 = directional_J1 J0u J90u angles;
         J2 = directional_J2 angles J20 J260 J2120;
         psi_scale = singularity_index J0 J1 J2 in
     if s > 0
     then err_bind (resize L psi_scale (int C, int R) INTER_CUBIC) (\<lambda>psi_scale.
          err_bind (resize L angles (int C, int R) INTER_NEAREST) (\<lambda>angles.
          Inr (I1, psi_scale, angles)))
     else Inr (I1, psi_scale, angles)))))))))"

subsection \<open>The aggregate across scales, with its store\<close>

text \<open>
  The names \<open>psi_max\<close>, \<open>psi_sum\<close>, \<open>orient\<close>, \<open>widthMap\<close> and \<open>psi\<close> live across
  iterations, and two of them are written in place (\<^verbatim>\<open>psi_max[idx] = ...\<close>,
  \<^verbatim>\<open>orient[idx] = ...\<close>). A Python name holds a reference to an array object, and an
  assignment \<^verbatim>\<open>a = b\<close> makes both names refer to one object. So the frame of the
  loop maps each name to a reference into a store of arrays (\<open>None\<close>: the name is not
  bound yet). An array made in an iteration enters the store when one of these
  names is bound to it; an array expression (\<^verbatim>\<open>psi_sum + psi_scale\<close>) makes a new object.
\<close>

type_synonym ref = nat

record frame =
  store :: "ndarray list"
  I1 :: ndarray
  psi_max :: "ref option"
  psi_sum :: "ref option"
  orient :: "ref option"
  widthMap :: "ref option"
  psi :: "ref option"

definition alloc :: "ndarray list \<Rightarrow> ndarray \<Rightarrow> ndarray list \<times> ref" where
  "alloc h a = (h @ [a], length h)"

definition lookup_var :: "string \<Rightarrow> ref option \<Rightarrow> error + ref" where
  "lookup_var name v = (case v of None \<Rightarrow> Inl (UnboundLocalError name) | Some r \<Rightarrow> Inr r)"

text \<open>Lines 155 to 167, for the response \<open>psi_scale\<close> and orientation \<open>angles\<close> of scale \<open>s\<close>.\<close>

definition aggregate ::
  "real \<Rightarrow> nat \<Rightarrow> ndarray \<Rightarrow> ndarray \<Rightarrow> frame \<Rightarrow> error + frame" where
  "aggregate ms s psi_scale angles fr =
     (if s = 0 then
        (case alloc (store fr) psi_scale of (h, p) \<Rightarrow>
         case alloc h angles of (h, a) \<Rightarrow>
         case alloc h (a_scale (ms * sqrt 2 ^ s) psi_scale) of (h, w) \<Rightarrow>
         case alloc h (a_sq psi_scale) of (h, q) \<Rightarrow>
         Inr (fr\<lparr>store := h, psi_max := Some p, psi_sum := Some p, orient := Some a,
                 widthMap := Some w, psi := Some q\<rparr>))
      else
        err_bind (lookup_var ''psi_max'' (psi_max fr)) (\<lambda>p.
        let h = store fr;
            idx = a_gt psi_scale (h ! p);
            h = h[p := setitem_mask (h ! p) idx (getitem_mask psi_scale idx)] in
        err_bind (lookup_var ''psi_sum'' (psi_sum fr)) (\<lambda>r.
        case alloc h (a_add (h ! r) psi_scale) of (h, r') \<Rightarrow>
        err_bind (lookup_var ''orient'' (orient fr)) (\<lambda>a.
        let h = h[a := setitem_mask (h ! a) idx (getitem_mask angles idx)] in
        err_bind (lookup_var ''widthMap'' (widthMap fr)) (\<lambda>w.
        case alloc h (a_add (h ! w) (a_scale (ms * sqrt 2 ^ s) psi_scale)) of (h, w') \<Rightarrow>
        err_bind (lookup_var ''psi'' (psi fr)) (\<lambda>q.
        case alloc h (a_add (h ! q) (a_sq psi_scale)) of (h, q') \<Rightarrow>
        Inr (fr\<lparr>store := h, psi_sum := Some r', widthMap := Some w', psi := Some q'\<rparr>)))))))"

definition loop_body ::
  "libs \<Rightarrow> SingularityIndexFilters \<Rightarrow> nat \<Rightarrow> nat \<Rightarrow> nat \<Rightarrow> frame \<Rightarrow> error + frame" where
  "loop_body L f R C s fr =
     err_bind (scale_pass L f R C s (I1 fr)) (\<lambda>(I1', psi_scale, angles).
     aggregate (minScale f) s psi_scale angles (fr\<lparr>I1 := I1'\<rparr>))"

text \<open>\<^verbatim>\<open>for s in range(0, filters.nrScales)\<close>, over the list of the scale indices left.\<close>

fun mmsi_loop ::
  "libs \<Rightarrow> SingularityIndexFilters \<Rightarrow> nat \<Rightarrow> nat \<Rightarrow> nat list \<Rightarrow> frame \<Rightarrow> error + frame" where
  "mmsi_loop L f R C [] fr = Inr fr"
| "mmsi_loop L f R C (s # ss) fr =
     (case loop_body L f R C s fr of
        Inl e \<Rightarrow> Inl e
      | Inr fr' \<Rightarrow> mmsi_loop L f R C ss fr')"

text \<open>
  Line 169: \<^verbatim>\<open>widthMap[psi_sum>0] = widthMap[psi_sum>0] / psi_sum[psi_sum>0]\<close>. The
  quotient is taken of the two selections, and its values are written back at the
  selected positions.
\<close>

definition normalize_width :: "ndarray \<Rightarrow> ndarray \<Rightarrow> ndarray" where
  "normalize_width w sm =
     setitem_mask w (a_pos sm)
       (map2 (\<lambda>x y. x / y) (getitem_mask w (a_pos sm)) (getitem_mask sm (a_pos sm)))"

text \<open>Lines 169 to 172. The right-hand side of line 169 reads \<open>widthMap\<close> first.\<close>

definition finalize :: "frame \<Rightarrow> error + (ndarray \<times> ndarray \<times> ndarray)" where
  "finalize fr =
     err_bind (lookup_var ''widthMap'' (widthMap fr)) (\<lambda>w.
     err_bind (lookup_var ''psi_sum'' (psi_sum fr)) (\<lambda>r.
     let h = store fr;
         h = h[w := normalize_width (h ! w) (h ! r)] in
     err_bind (lookup_var ''psi'' (psi fr)) (\<lambda>q.
     let psi_final = amap sqrt (h ! q) in
     err_bind (lookup_var ''orient'' (orient fr)) (\<lambda>a.
     Inr (psi_final, h ! w, h ! a)))))"

definition initial_frame :: "ndarray \<Rightarrow> frame" where
  "initial_frame img =
     \<lparr>store = [], I1 = img, psi_max = None, psi_sum = None, orient = None,
      widthMap = None, psi = None\<rparr>"

text \<open>Lines 93 to 97: the two dtype tests, in sequence.\<close>

definition rescale_input :: "ndarray \<Rightarrow> ndarray" where
  "rescale_input img =
     (let img = (if dtype img = UInt8 then astype_float_div img 255 else img);
          img = (if dtype img = UInt16 then astype_float_div img 65535 else img)
      in img)"

definition scale_indices :: "SingularityIndexFilters \<Rightarrow> nat list" where
  "scale_indices f = map nat (py_range 0 (nrScales f))"

definition applyMMSI ::
  "libs \<Rightarrow> ndarray \<Rightarrow> SingularityIndexFilters \<Rightarrow> error + (ndarray \<times> ndarray \<times> ndarray)" where
  "applyMMSI L img f =
     (let img = rescale_input img in
      if length (shape img) > 2 then Inl UnsupportedShape
      else case shape img of
        [R, C] \<Rightarrow>
          err_bind (mmsi_loop L f R C (scale_indices f) (initial_frame img)) finalize
      | _ \<Rightarrow> Inl UnpackError)"

subsection \<open>Reading the aggregate\<close>

text \<open>The array a loop-carried name refers to, if the name is bound.\<close>

definition deref :: "frame \<Rightarrow> ref option \<Rightarrow> ndarray option" where
  "deref fr v = map_option (\<lambda>r. store fr ! r) v"

text \<open>
  The aggregation steps of the loop alone, on given per-scale responses and
  orientations: scale \<open>s\<close>, then the scales after it.
\<close>

fun aggregate_from :: "real \<Rightarrow> nat \<Rightarrow> (ndarray \<times> ndarray) list \<Rightarrow> frame \<Rightarrow> error + frame" where
  "aggregate_from ms s [] fr = Inr fr"
| "aggregate_from ms s ((psi_scale, angles) # rest) fr =
     (case aggregate ms s psi_scale angles fr of
        Inl e \<Rightarrow> Inl e
      | Inr fr' \<Rightarrow> aggregate_from ms (Suc s) rest fr')"

subsection \<open>What the theorems assume of the libraries\<close>

definition image_of :: "nat \<Rightarrow> nat \<Rightarrow> ndarray \<Rightarrow> bool" where
  "image_of r c a = (dtype a = Float64 \<and> shape a = [r, c] \<and> length (data a) = r * c)"

definition all_zero :: "ndarray \<Rightarrow> bool" where
  "all_zero a = list_all (\<lambda>x. x = 0) (data a)"

definition is_vector :: "ndarray \<Rightarrow> bool" where
  "is_vector k =
     (data k \<noteq> [] \<and> (shape k = [length (data k), 1] \<or> shape k = [1, length (data k)]))"

definition is_kernel2d :: "ndarray \<Rightarrow> bool" where
  "is_kernel2d k =
     (data k \<noteq> [] \<and> (case shape k of [r, c] \<Rightarrow> length (data k) = r * c | _ \<Rightarrow> False))"

text \<open>
  \<^verbatim>\<open>cv2.getGaussianKernel(n, sigma)\<close> returns an \<open>n \<times> 1\<close> column for every positive
  \<open>n\<close> (a non-positive \<open>sigma\<close> is replaced by one computed from \<open>n\<close>).
\<close>

definition gauss_contract :: "libs \<Rightarrow> bool" where
  "gauss_contract L =
     (\<forall>n sigma. 0 < n \<longrightarrow>
        (\<exists>k. cv2_getGaussianKernel L n sigma = Some k \<and> dtype k = Float64 \<and>
             shape k = [nat n, 1] \<and> length (data k) = nat n))"

text \<open>
  On a non-empty \<open>float64\<close> image, the two filters return an image of the same shape
  and \<^verbatim>\<open>cv2.resize\<close> one of the requested shape \<open>(h, w)\<close>; all three are linear in the
  image, so they take an all-zero image to an all-zero one.
\<close>

definition filter_contract :: "libs \<Rightarrow> bool" where
  "filter_contract L =
     ((\<forall>src kx ky r c.
         image_of r c src \<and> 0 < r \<and> 0 < c \<and> is_vector kx \<and> is_vector ky \<longrightarrow>
         (\<exists>out. cv2_sepFilter2D L src kx ky = Some out \<and> image_of r c out \<and>
                (all_zero src \<longrightarrow> all_zero out))) \<and>
      (\<forall>src k r c.
         image_of r c src \<and> 0 < r \<and> 0 < c \<and> is_kernel2d k \<longrightarrow>
         (\<exists>out. fftconvolve_same L src k = Some out \<and> image_of r c out \<and>
                (all_zero src \<longrightarrow> all_zero out))) \<and>
      (\<forall>src w h interp r c.
         image_of r c src \<and> 0 < r \<and> 0 < c \<and> 0 < w \<and> 0 < h \<longrightarrow>
         (\<exists>out. cv2_resize L src (w, h) interp = Some out \<and> image_of h w out \<and>
                (all_zero src \<longrightarrow> all_zero out))))"

text \<open>Nearest-neighbour resizing copies elements of its input.\<close>

definition nearest_contract :: "libs \<Rightarrow> bool" where
  "nearest_contract L =
     (\<forall>src dsize out.
        cv2_resize L src dsize INTER_NEAREST = Some out \<longrightarrow> set (data out) \<subseteq> set (data src))"

text \<open>
  A small instance of the interface that meets the three contracts, for instantiating
  the theorems at concrete inputs: a box kernel, filters that weigh each pixel by
  the sum of the kernel, and a resize that repeats the first pixel.
\<close>

definition toy_lib :: libs where
  "toy_lib =
     \<lparr>cv2_getGaussianKernel = (\<lambda>n sigma.
        if n \<le> 0 then None
        else Some \<lparr>dtype = Float64, shape = [nat n, 1],
                   data = replicate (nat n) (1 / real_of_int n)\<rparr>),
      cv2_sepFilter2D = (\<lambda>src kx ky.
        Some (amap (\<lambda>x. x * (sum_list (data kx) * sum_list (data ky))) src)),
      cv2_resize = (\<lambda>src dsize interp.
        case data src of
          [] \<Rightarrow> None
        | x # xs \<Rightarrow> Some \<lparr>dtype = Float64, shape = [snd dsize, fst dsize],
                           data = replicate (snd dsize * fst dsize) x\<rparr>),
      fftconvolve_same = (\<lambda>src k. Some (amap (\<lambda>x. x * sum_list (data k)) src))\<rparr>"

definition zeros :: "dtype \<Rightarrow> nat \<Rightarrow> nat \<Rightarrow> ndarray" where
  "zeros t r c = \<lparr>dtype = t, shape = [r, c], data = replicate (r * c) 0\<rparr>"

subsection \<open>Outcomes of a computation\<close>

text \<open>\<open>outcome E Q m\<close>: if \<open>m\<close> raises, the error meets \<open>E\<close>; if it returns, the value meets \<open>Q\<close>.\<close>

definition outcome :: "(error \<Rightarrow> bool) \<Rightarrow> ('a \<Rightarrow> bool) \<Rightarrow> error + 'a \<Rightarrow> bool" where
  "outcome E Q m = (case m of Inl e \<Rightarrow> E e | Inr x \<Rightarrow> Q x)"

definition not_shape_error :: "error \<Rightarrow> bool" where
  "not_shape_error e = (e \<noteq> UnsupportedShape)"

subsection \<open>Sample inputs\<close>

definition pixel :: "real \<Rightarrow> ndarray" where
  "pixel x = \<lparr>dtype = Float64, shape = [1, 1], data = [x]\<rparr>"

text \<open>
  A frame as the loop leaves it, on a row of three pixels: \<open>widthMap\<close> is object 0,
  \<open>psi_max\<close> and \<open>psi_sum\<close> are object 1, \<open>psi\<close> is object 2, \<open>orient\<close> is object 3.
\<close>

definition sample_frame :: frame where
  "sample_frame =
     \<lparr>store = [\<lparr>dtype = Float64, shape = [1, 3], data = [2, 5, 7]\<rparr>,
               \<lparr>dtype = Float64, shape = [1, 3], data = [4, 0, - 1]\<rparr>,
               \<lparr>dtype = Float64, shape = [1, 3], data = [9, 0, 0]\<rparr>,
               \<lparr>dtype = Float64, shape = [1, 3], data = [0, 0, 0]\<rparr>],
      I1 = pixel 0, psi_max = Some 1, psi_sum = Some 1, orient = Some 3,
      widthMap = Some 0, psi = Some 2\<rparr>"

subsection \<open>Invariants of the loop\<close>

definition in_half_turn :: "real \<Rightarrow> bool" where
  "in_half_turn x = (- (pi / 2) < x \<and> x \<le> pi / 2)"

text \<open>
  Once \<open>orient\<close> is bound, its object is in the store, holds angles of the half turn
  only, and is neither the object of \<open>psi_max\<close> nor that of \<open>widthMap\<close>, the two other
  names whose objects are written in place.
\<close>

definition orient_inv :: "frame \<Rightarrow> bool" where
  "orient_inv fr =
     (case orient fr of
        None \<Rightarrow> True
      | Some a \<Rightarrow> a < length (store fr) \<and> list_all in_half_turn (data (store fr ! a)) \<and>
                  psi_max fr \<noteq> Some a \<and> widthMap fr \<noteq> Some a)"

text \<open>The kernels of a bank have the form the filters accept.\<close>

definition bank_wf :: "SingularityIndexFilters \<Rightarrow> bool" where
  "bank_wf f =
     (is_vector (Gdebias f) \<and> is_vector (G01d f) \<and> is_vector (G0_a f) \<and> is_vector (G1 f) \<and>
      is_kernel2d (G20 f) \<and> is_kernel2d (G260 f) \<and> is_kernel2d (G2120 f))"

text \<open>
  All five aggregate names are bound to objects of the store, and every object of the
  store is the all-zero image of \<open>R\<close> rows and \<open>C\<close> columns.
\<close>

definition zero_frame :: "nat \<Rightarrow> nat \<Rightarrow> frame \<Rightarrow> bool" where
  "zero_frame R C fr =
     (list_all (\<lambda>a. a = zeros Float64 R C) (store fr) \<and>
      (\<exists>p r a w q. psi_max fr = Some p \<and> psi_sum fr = Some r \<and> orient fr = Some a \<and>
         widthMap fr = Some w \<and> psi fr = Some q \<and> p < length (store fr) \<and>
         r < length (store fr) \<and> a < length (store fr) \<and> w < length (store fr) \<and>
         q < length (store fr)))"

section \<open>Properties\<close>

subsection \<open>Outcomes compose\<close>

lemma outcome_bind:
  "outcome E Q1 m \<Longrightarrow> (\<And>x. Q1 x \<Longrightarrow> outcome E Q (k x)) \<Longrightarrow> outcome E Q (err_bind m k)"
  by (cases m) (simp_all add: outcome_def err_bind_def)

lemma outcome_Inr: "Q x \<Longrightarrow> outcome E Q (Inr x)"
  by (simp add: outcome_def)

lemma outcome_Inl: "E e \<Longrightarrow> outcome E Q (Inl e)"
  by (simp add: outcome_def)

lemma outcome_any: "outcome (\<lambda>e. True) (\<lambda>x. True) m"
  by (cases m) (simp_all add: outcome_def)

lemma outcome_lib_call: "E (LibraryError name) \<Longrightarrow> outcome E (\<lambda>x. True) (lib_call name r)"
  by (cases r) (simp_all add: outcome_def lib_call_def)

lemma outcome_lookup_var:
  "E (UnboundLocalError name) \<Longrightarrow> outcome E (\<lambda>x. True) (lookup_var name v)"
  by (cases v) (simp_all add: outcome_def lookup_var_def)

subsection \<open>Boolean indexing\<close>

lemma list_all_put_mask:
  "list_all P xs \<Longrightarrow> list_all P vs \<Longrightarrow> list_all P (put_mask xs ms vs)"
  by (induction xs ms vs rule: put_mask.induct) auto

lemma list_all_take_mask: "list_all P xs \<Longrightarrow> list_all P (take_mask xs ms)"
  by (induction xs ms rule: take_mask.induct) auto

lemma length_put_mask: "length (put_mask xs ms vs) = length xs"
  by (induction xs ms vs rule: put_mask.induct) auto

lemma put_mask_all_False: "put_mask xs (replicate n False) vs = xs"
proof (induction xs arbitrary: n vs)
  case Nil
  show ?case by (cases n) simp_all
next
  case (Cons x xs)
  show ?case by (cases n) (simp_all add: Cons.IH)
qed

subsection \<open>What construction returns\<close>

lemma py_int_nonneg: "0 \<le> x \<Longrightarrow> 0 \<le> py_int x"
  by (simp add: py_int_def)

lemma ksized_nonneg: "0 < ms \<Longrightarrow> 0 \<le> ksized ms"
  by (simp add: ksized_def sigmad_def py_int_nonneg)

lemma ksize2_pos: "0 < ms \<Longrightarrow> 1 \<le> ksize2 ms"
  by (simp add: ksize2_def sigma2_def py_int_nonneg)

lemma ksize1_pos: "0 < ms \<Longrightarrow> 1 \<le> ksize1 ms"
  by (simp add: ksize1_def sigma1_def py_int_nonneg)

lemma gauss_contractD:
  assumes "gauss_contract L" "0 < n"
  shows "\<exists>k. getGaussianKernel L n sigma = Inr k \<and> dtype k = Float64 \<and>
    shape k = [nat n, 1] \<and> length (data k) = nat n"
proof -
  from assms obtain k where "cv2_getGaussianKernel L n sigma = Some k" "dtype k = Float64"
    "shape k = [nat n, 1]" "length (data k) = nat n"
    unfolding gauss_contract_def by blast
  then show ?thesis by (simp add: getGaussianKernel_def lib_call_def)
qed

lemma createFilters_eq:
  assumes Gd: "getGaussianKernel L (2 * ksized ms + 1) (sigmad ms) = Inr Gd"
    and G: "getGaussianKernel L (2 * ksize2 ms + 1) (sigma2 ms) = Inr G"
    and Ga: "getGaussianKernel L (2 * ksize1 ms + 1) (sigma1 ms) = Inr Ga"
    and x1: "np_linspace (real_of_int (- ksize1 ms)) (real_of_int (ksize1 ms)) (2 * ksize1 ms + 1) = Inr x1"
    and XY: "np_meshgrid (py_range (- ksize2 ms) (ksize2 ms + 1))
                      (py_range (- ksize2 ms) (ksize2 ms + 1)) = (X, Y)"
    and ms: "0 < ms"
  shows "createFilters L ms n =
        Inr \<lparr>minScale = ms, nrScales = n, Gdebias = Gd, G01d = G,
          G20 = second_derivative (rotated_coord X Y theta1) (sigma2 ms) (1 / sigma2 ms ^ 2) (np_outer G (arr_T G)),
          G260 = second_derivative (rotated_coord X Y theta2) (sigma2 ms) (1 / sigma2 ms ^ 2) (np_outer G (arr_T G)),
          G2120 = second_derivative (rotated_coord X Y theta3) (sigma2 ms) (1 / sigma2 ms ^ 2) (np_outer G (arr_T G)),
          G0_a = Ga,
          G1 = a_mul (a_scale (- ((1 / sigma1 ms) ^ 2)) (np_reshape_row x1)) (arr_T Ga),
          isCreated = True\<rparr>"
proof -
  have s2: "py_div 1 (sigma2 ms ^ 2) = Inr (1 / sigma2 ms ^ 2)" using ms by (simp add: sigma2_def py_div_def)
  have s1: "py_div 1 (sigma1 ms) = Inr (1 / sigma1 ms)" using ms by (simp add: sigma1_def py_div_def)
  show ?thesis
    unfolding createFilters_def Gd G Ga x1 XY s2 s1 err_bind_def Let_def
    by simp
qed

lemma length_concat_rows: "length (concat (map (\<lambda>y. map (g y) xs) ys)) = length ys * length xs"
  by (induction ys) simp_all

lemma length_py_range: "length (py_range (- k) (k + 1)) = nat (2 * k + 1)"
  by (simp add: py_range_def)

lemma shape_second_derivative: "shape (second_derivative (rotated_coord X Y th) s c G0) = shape X"
  by (simp add: second_derivative_def rotated_coord_def a_mul_def a_sub_def a_sq_def amap_def amap2_def)

lemma length_second_derivative:
  "length (data (second_derivative (rotated_coord X Y th) s c G0)) =
     min (min (length (data X)) (length (data Y))) (length (data G0))"
  by (simp add: second_derivative_def rotated_coord_def a_mul_def a_sub_def a_sq_def amap_def amap2_def)

lemma meshgrid_square:
  assumes "np_meshgrid xs xs = (X, Y)"
  shows "shape X = [length xs, length xs]" "length (data X) = length xs * length xs"
    "length (data Y) = length xs * length xs"
  using assms by (auto simp: np_meshgrid_def length_concat_rows)

lemma np_outer_T: "length (data (np_outer G (arr_T G))) = length (data G) * length (data G)"
  by (simp add: np_outer_def arr_T_def length_concat_rows)

lemma init_filters_kernels:
  assumes L: "gauss_contract L" and ms: "0 < ms" and f: "init_filters L ms n = Inr f"
  shows "minScale f = ms" "nrScales f = n"
    "shape (Gdebias f) = [nat (2 * ksized ms + 1), 1]"
    "length (data (Gdebias f)) = nat (2 * ksized ms + 1)"
    "shape (G01d f) = [nat (2 * ksize2 ms + 1), 1]"
    "length (data (G01d f)) = nat (2 * ksize2 ms + 1)"
    "shape (G20 f) = [nat (2 * ksize2 ms + 1), nat (2 * ksize2 ms + 1)]"
    "length (data (G20 f)) = nat (2 * ksize2 ms + 1) * nat (2 * ksize2 ms + 1)"
    "shape (G260 f) = [nat (2 * ksize2 ms + 1), nat (2 * ksize2 ms + 1)]"
    "length (data (G260 f)) = nat (2 * ksize2 ms + 1) * nat (2 * ksize2 ms + 1)"
    "shape (G2120 f) = [nat (2 * ksize2 ms + 1), nat (2 * ksize2 ms + 1)]"
    "length (data (G2120 f)) = nat (2 * ksize2 ms + 1) * nat (2 * ksize2 ms + 1)"
    "shape (G0_a f) = [nat (2 * ksize1 ms + 1), 1]"
    "length (data (G0_a f)) = nat (2 * ksize1 ms + 1)"
    "shape (G1 f) = [1, nat (2 * ksize1 ms + 1)]"
    "length (data (G1 f)) = nat (2 * ksize1 ms + 1)"
proof -
  have kd: "0 < 2 * ksized ms + 1" using ksized_nonneg[OF ms] by simp
  have k2: "0 < 2 * ksize2 ms + 1" using ksize2_pos[OF ms] by simp
  have k1: "0 < 2 * ksize1 ms + 1" using ksize1_pos[OF ms] by simp
  obtain Gd where Gd: "getGaussianKernel L (2 * ksized ms + 1) (sigmad ms) = Inr Gd"
    "shape Gd = [nat (2 * ksized ms + 1), 1]" "length (data Gd) = nat (2 * ksized ms + 1)"
    using gauss_contractD[OF L kd] by blast
  obtain G where G: "getGaussianKernel L (2 * ksize2 ms + 1) (sigma2 ms) = Inr G"
    "shape G = [nat (2 * ksize2 ms + 1), 1]" "length (data G) = nat (2 * ksize2 ms + 1)"
    using gauss_contractD[OF L k2] by blast
  obtain Ga where Ga: "getGaussianKernel L (2 * ksize1 ms + 1) (sigma1 ms) = Inr Ga"
    "shape Ga = [nat (2 * ksize1 ms + 1), 1]" "length (data Ga) = nat (2 * ksize1 ms + 1)"
    using gauss_contractD[OF L k1] by blast
  define x1 where "x1 = \<lparr>dtype = Float64, shape = [nat (2 * ksize1 ms + 1)],
       data = map (\<lambda>i. real_of_int (- ksize1 ms) + real i *
                 ((real_of_int (ksize1 ms) - real_of_int (- ksize1 ms)) / real (nat (2 * ksize1 ms + 1) - 1)))
               [0..<nat (2 * ksize1 ms + 1)]\<rparr>"
  have x1: "np_linspace (real_of_int (- ksize1 ms)) (real_of_int (ksize1 ms)) (2 * ksize1 ms + 1) = Inr x1"
    using k1 by (simp add: np_linspace_def x1_def)
  have lx1: "length (data x1) = nat (2 * ksize1 ms + 1)" by (simp add: x1_def)
  obtain X Y where XY: "np_meshgrid (py_range (- ksize2 ms) (ksize2 ms + 1))
                      (py_range (- ksize2 ms) (ksize2 ms + 1)) = (X, Y)"
    by (cases "np_meshgrid (py_range (- ksize2 ms) (ksize2 ms + 1))
                      (py_range (- ksize2 ms) (ksize2 ms + 1))") blast
  note mg = meshgrid_square[OF XY, unfolded length_py_range]
  have feq: "f = \<lparr>minScale = ms, nrScales = n, Gdebias = Gd, G01d = G,
          G20 = second_derivative (rotated_coord X Y theta1) (sigma2 ms) (1 / sigma2 ms ^ 2) (np_outer G (arr_T G)),
          G260 = second_derivative (rotated_coord X Y theta2) (sigma2 ms) (1 / sigma2 ms ^ 2) (np_outer G (arr_T G)),
          G2120 = second_derivative (rotated_coord X Y theta3) (sigma2 ms) (1 / sigma2 ms ^ 2) (np_outer G (arr_T G)),
          G0_a = Ga,
          G1 = a_mul (a_scale (- ((1 / sigma1 ms) ^ 2)) (np_reshape_row x1)) (arr_T Ga),
          isCreated = True\<rparr>"
    using createFilters_eq[OF Gd(1) G(1) Ga(1) x1 XY ms, of n] f by (simp add: init_filters_def)
  show "minScale f = ms" "nrScales f = n" by (simp_all add: feq)
  show "shape (Gdebias f) = [nat (2 * ksized ms + 1), 1]"
    "length (data (Gdebias f)) = nat (2 * ksized ms + 1)"
    "shape (G01d f) = [nat (2 * ksize2 ms + 1), 1]"
    "length (data (G01d f)) = nat (2 * ksize2 ms + 1)"
    "shape (G0_a f) = [nat (2 * ksize1 ms + 1), 1]"
    "length (data (G0_a f)) = nat (2 * ksize1 ms + 1)"
    by (simp_all add: feq Gd G Ga)
  show "shape (G20 f) = [nat (2 * ksize2 ms + 1), nat (2 * ksize2 ms + 1)]"
    "shape (G260 f) = [nat (2 * ksize2 ms + 1), nat (2 * ksize2 ms + 1)]"
    "shape (G2120 f) = [nat (2 * ksize2 ms + 1), nat (2 * ksize2 ms + 1)]"
    by (simp_all add: feq shape_second_derivative mg)
  show "length (data (G20 f)) = nat (2 * ksize2 ms + 1) * nat (2 * ksize2 ms + 1)"
    "length (data (G260 f)) = nat (2 * ksize2 ms + 1) * nat (2 * ksize2 ms + 1)"
    "length (data (G2120 f)) = nat (2 * ksize2 ms + 1) * nat (2 * ksize2 ms + 1)"
    by (simp_all add: feq length_second_derivative mg np_outer_T G)
  show "shape (G1 f) = [1, nat (2 * ksize1 ms + 1)]"
    "length (data (G1 f)) = nat (2 * ksize1 ms + 1)"
    by (simp_all add: feq a_mul_def a_scale_def amap_def amap2_def np_reshape_row_def arr_T_def lx1 Ga)
qed

lemma init_filters_succeeds:
  assumes L: "gauss_contract L" and ms: "0 < ms"
  shows "\<exists>f. init_filters L ms n = Inr f"
proof -
  have kd: "0 < 2 * ksized ms + 1" using ksized_nonneg[OF ms] by simp
  have k2: "0 < 2 * ksize2 ms + 1" using ksize2_pos[OF ms] by simp
  have k1: "0 < 2 * ksize1 ms + 1" using ksize1_pos[OF ms] by simp
  obtain Gd where Gd: "getGaussianKernel L (2 * ksized ms + 1) (sigmad ms) = Inr Gd"
    using gauss_contractD[OF L kd] by blast
  obtain G where G: "getGaussianKernel L (2 * ksize2 ms + 1) (sigma2 ms) = Inr G"
    using gauss_contractD[OF L k2] by blast
  obtain Ga where Ga: "getGaussianKernel L (2 * ksize1 ms + 1) (sigma1 ms) = Inr Ga"
    using gauss_contractD[OF L k1] by blast
  obtain x1 where x1: "np_linspace (real_of_int (- ksize1 ms)) (real_of_int (ksize1 ms)) (2 * ksize1 ms + 1) = Inr x1"
    using k1 by (simp add: np_linspace_def)
  obtain X Y where XY: "np_meshgrid (py_range (- ksize2 ms) (ksize2 ms + 1))
                      (py_range (- ksize2 ms) (ksize2 ms + 1)) = (X, Y)"
    by (cases "np_meshgrid (py_range (- ksize2 ms) (ksize2 ms + 1))
                      (py_range (- ksize2 ms) (ksize2 ms + 1))") blast
  show ?thesis
    using createFilters_eq[OF Gd G Ga x1 XY ms, of n] by (simp add: init_filters_def)
qed

lemma init_filters_zero:
  assumes "gauss_contract L"
  shows "init_filters L 0 n = Inl ZeroDivisionError"
proof -
  have k: "ksized 0 = 0" "ksize2 0 = 1"
    by (simp_all add: ksized_def ksize2_def sigmad_def sigma2_def py_int_def)
  obtain Gd where Gd: "getGaussianKernel L 1 (sigmad 0) = Inr Gd"
    using gauss_contractD[OF assms, of 1] by (metis zero_less_one)
  obtain G where G: "getGaussianKernel L 3 (sigma2 0) = Inr G"
    using gauss_contractD[OF assms, of 3] by (metis zero_less_numeral)
  have z: "py_div 1 (sigma2 0 ^ 2) = Inl ZeroDivisionError" by (simp add: py_div_def sigma2_def)
  show ?thesis
    unfolding init_filters_def createFilters_def k
    by (simp add: Gd G z err_bind_def Let_def split: prod.splits)
qed

lemma toy_gauss: "gauss_contract toy_lib"
  by (simp add: gauss_contract_def toy_lib_def)

text \<open>
  Claim C2, as the code has it. Construction tests neither parameter. With a library
  that returns a kernel for every positive size, every \<open>minScale > 0\<close> gives a bank
  whatever \<open>nrScales\<close> is, zero and negative numbers included, and the bank records
  both as given. \<open>minScale = 0\<close> fails, but with the \<^verbatim>\<open>ZeroDivisionError\<close> of
  \<^verbatim>\<open>1/(sigma2**2)\<close> on line 63, after the debias and the Gaussian kernel have been made.
\<close>

theorem construction_unvalidated:
  assumes "gauss_contract L"
  shows "(0 < ms \<longrightarrow> (\<exists>f. init_filters L ms n = Inr f \<and> minScale f = ms \<and> nrScales f = n)) \<and>
         init_filters L 0 n = Inl ZeroDivisionError"
proof (intro conjI impI)
  assume ms: "0 < ms"
  then obtain f where f: "init_filters L ms n = Inr f"
    using init_filters_succeeds[OF assms] by blast
  then show "\<exists>f. init_filters L ms n = Inr f \<and> minScale f = ms \<and> nrScales f = n"
    using init_filters_kernels(1,2)[OF assms ms f] by blast
next
  show "init_filters L 0 n = Inl ZeroDivisionError"
    by (rule init_filters_zero[OF assms])
qed

theorem construction_unvalidated_witness:
  "gauss_contract toy_lib \<and>
   (\<exists>f. init_filters toy_lib 1.5 (- 3) = Inr f \<and> minScale f = 1.5 \<and> nrScales f = - 3) \<and>
   init_filters toy_lib 0 (- 3) = Inl ZeroDivisionError"
  using construction_unvalidated[OF toy_gauss, of "1.5" "- 3"] toy_gauss by simp

text \<open>The claim fails for the default \<open>minScale\<close> and no scales: construction returns a bank.\<close>

theorem construction_unvalidated_counterexample: "\<not> isl (init_filters toy_lib 1.5 0)"
  using init_filters_succeeds[OF toy_gauss, of "1.5" 0] by auto

subsection \<open>Kernel sizes\<close>




subsection \<open>The number of scales and the kernels\<close>

lemma createFilters_nrScales_irrelevant:
  "map_sum id (\<lambda>f. f\<lparr>nrScales := n2\<rparr>) (createFilters L ms n1) = createFilters L ms n2"
  unfolding createFilters_def Let_def err_bind_def
  by (simp split: sum.splits prod.splits)

text \<open>
  Claim C9. Two banks built from the same \<open>minScale\<close> with different numbers of scales
  hold the same seven kernels. This holds for every \<open>minScale\<close> for which both
  constructions return.
\<close>

theorem kernels_independent_of_nrScales:
  assumes "init_filters L ms n1 = Inr f1" "init_filters L ms n2 = Inr f2"
  shows "Gdebias f1 = Gdebias f2 \<and> G01d f1 = G01d f2 \<and> G20 f1 = G20 f2 \<and>
         G260 f1 = G260 f2 \<and> G2120 f1 = G2120 f2 \<and> G0_a f1 = G0_a f2 \<and> G1 f1 = G1 f2"
proof -
  have "Inr f2 = map_sum id (\<lambda>f. f\<lparr>nrScales := n2\<rparr>) (Inr f1 :: error + SingularityIndexFilters)"
    using createFilters_nrScales_irrelevant[of n2 L ms n1] assms by (simp add: init_filters_def)
  then have "f2 = f1\<lparr>nrScales := n2\<rparr>" by simp
  then show ?thesis by simp
qed

theorem kernels_independent_of_nrScales_witness:
  "\<exists>f1 f2. init_filters toy_lib 1.5 15 = Inr f1 \<and> init_filters toy_lib 1.5 3 = Inr f2 \<and>
       nrScales f1 = 15 \<and> nrScales f2 = 3 \<and>
       Gdebias f1 = Gdebias f2 \<and> G01d f1 = G01d f2 \<and> G20 f1 = G20 f2 \<and>
       G260 f1 = G260 f2 \<and> G2120 f1 = G2120 f2 \<and> G0_a f1 = G0_a f2 \<and> G1 f1 = G1 f2"
proof -
  obtain f1 where f1: "init_filters toy_lib 1.5 15 = Inr f1"
    using init_filters_succeeds[OF toy_gauss, of "1.5" 15] by auto
  obtain f2 where f2: "init_filters toy_lib 1.5 3 = Inr f2"
    using init_filters_succeeds[OF toy_gauss, of "1.5" 3] by auto
  have "nrScales f1 = 15" "nrScales f2 = 3"
    using init_filters_kernels(2)[OF toy_gauss _ f1] init_filters_kernels(2)[OF toy_gauss _ f2]
    by simp_all
  then show ?thesis
    using kernels_independent_of_nrScales[OF f1 f2] f1 f2 by blast
qed

subsection \<open>The shape error\<close>

text \<open>Nothing after line 100 raises the error of line 100.\<close>

lemma resize_not_shape: "outcome not_shape_error (\<lambda>x. True) (resize L src dsize interp)"
  by (cases dsize) (auto simp: resize_def not_shape_error_def intro: outcome_lib_call outcome_Inl)

lemma scale_pass_not_shape: "outcome not_shape_error (\<lambda>x. True) (scale_pass L f R C s img)"
  unfolding scale_pass_def Let_def sepFilter2D_def fftconvolve_def
  by (intro outcome_bind[where ?Q1.0="\<lambda>x. True"] outcome_lib_call resize_not_shape)
     (auto simp: not_shape_error_def
        intro!: outcome_Inr outcome_bind[where ?Q1.0="\<lambda>x. True"] resize_not_shape)

lemma aggregate_not_shape: "outcome not_shape_error (\<lambda>x. True) (aggregate ms s p a fr)"
  unfolding aggregate_def Let_def
  by (auto simp: not_shape_error_def split: prod.splits
      intro!: outcome_Inr outcome_bind[where ?Q1.0="\<lambda>x. True"] outcome_lookup_var)

lemma loop_body_not_shape: "outcome not_shape_error (\<lambda>x. True) (loop_body L f R C s fr)"
  unfolding loop_body_def
  by (auto intro!: outcome_bind[where ?Q1.0="\<lambda>x. True"] scale_pass_not_shape
      aggregate_not_shape)

lemma mmsi_loop_not_shape: "outcome not_shape_error (\<lambda>x. True) (mmsi_loop L f R C ss fr)"
proof (induction ss arbitrary: fr)
  case Nil
  show ?case by (simp add: outcome_def)
next
  case (Cons s ss)
  show ?case
  proof (cases "loop_body L f R C s fr")
    case (Inl e)
    with loop_body_not_shape[of L f R C s fr] show ?thesis by (simp add: outcome_def)
  next
    case (Inr fr')
    with Cons.IH[of fr'] show ?thesis by simp
  qed
qed

lemma finalize_not_shape: "outcome not_shape_error (\<lambda>x. True) (finalize fr)"
  unfolding finalize_def Let_def
  by (auto simp: not_shape_error_def
      intro!: outcome_Inr outcome_bind[where ?Q1.0="\<lambda>x. True"] outcome_lookup_var)

lemma shape_rescale_input [simp]: "shape (rescale_input img) = shape img"
  by (simp add: rescale_input_def astype_float_div_def Let_def)

lemma run_not_shape:
  "err_bind (mmsi_loop L f R C ss fr) finalize \<noteq> Inl UnsupportedShape"
proof -
  have "outcome not_shape_error (\<lambda>x. True) (err_bind (mmsi_loop L f R C ss fr) finalize)"
    by (intro outcome_bind[where ?Q1.0="\<lambda>x. True"] mmsi_loop_not_shape finalize_not_shape)
  then show ?thesis by (auto simp: outcome_def not_shape_error_def)
qed

text \<open>
  Claim C3. \<^verbatim>\<open>applyMMSI\<close> fails with the shape error exactly when the input has more
  than two dimensions. The error does not depend on the libraries (the statement holds
  for every \<open>L\<close>, so no filter has run) and the result is the error alone; an input
  with two dimensions \<open>(R, C)\<close> goes into the loop over the scales and its result is
  what the loop and the final step give. The error of line 100 is told apart from the
  \<^verbatim>\<open>ValueError\<close> that unpacking the shape of an input with fewer than two dimensions
  raises at line 102.
\<close>

theorem applyMMSI_shape_error:
  "(applyMMSI L img f = Inl UnsupportedShape) = (2 < length (shape img)) \<and>
   (\<forall>R C. shape img = [R, C] \<longrightarrow>
      applyMMSI L img f =
        err_bind (mmsi_loop L f R C (scale_indices f) (initial_frame (rescale_input img)))
          finalize)"
proof (intro conjI allI impI)
  show "(applyMMSI L img f = Inl UnsupportedShape) = (2 < length (shape img))"
  proof (cases "2 < length (shape img)")
    case True
    then show ?thesis by (simp add: applyMMSI_def Let_def)
  next
    case False
    then show ?thesis
      by (auto simp: applyMMSI_def Let_def run_not_shape split: list.splits)
  qed
next
  fix R C assume "shape img = [R, C]"
  then show "applyMMSI L img f =
        err_bind (mmsi_loop L f R C (scale_indices f) (initial_frame (rescale_input img))) finalize"
    by (simp add: applyMMSI_def Let_def)
qed

theorem applyMMSI_shape_error_witness:
  "\<exists>f. init_filters toy_lib 1.5 15 = Inr f \<and>
       applyMMSI toy_lib \<lparr>dtype = UInt8, shape = [2, 2, 3], data = replicate 12 0\<rparr> f
         = Inl UnsupportedShape \<and>
       applyMMSI toy_lib (zeros Float64 4 4) f \<noteq> Inl UnsupportedShape \<and>
       applyMMSI toy_lib (zeros Float64 4 4) f =
         err_bind (mmsi_loop toy_lib f 4 4 (scale_indices f)
                     (initial_frame (rescale_input (zeros Float64 4 4)))) finalize"
proof -
  obtain f where f: "init_filters toy_lib 1.5 15 = Inr f"
    using init_filters_succeeds[OF toy_gauss, of "1.5" 15] by auto
  have "applyMMSI toy_lib \<lparr>dtype = UInt8, shape = [2, 2, 3], data = replicate 12 0\<rparr> f
         = Inl UnsupportedShape"
    using applyMMSI_shape_error[of toy_lib "\<lparr>dtype = UInt8, shape = [2, 2, 3], data = replicate 12 0\<rparr>" f]
    by simp
  moreover have "applyMMSI toy_lib (zeros Float64 4 4) f \<noteq> Inl UnsupportedShape \<and>
       applyMMSI toy_lib (zeros Float64 4 4) f =
         err_bind (mmsi_loop toy_lib f 4 4 (scale_indices f)
                     (initial_frame (rescale_input (zeros Float64 4 4)))) finalize"
  proof -
    have sh: "shape (zeros Float64 4 4) = [4, 4]" by (simp add: zeros_def)
    note t = applyMMSI_shape_error[of toy_lib "zeros Float64 4 4" f]
    from t have "(applyMMSI toy_lib (zeros Float64 4 4) f = Inl UnsupportedShape) =
        (2 < length (shape (zeros Float64 4 4)))"
      by (rule conjunct1)
    then have "applyMMSI toy_lib (zeros Float64 4 4) f \<noteq> Inl UnsupportedShape"
      unfolding sh by simp
    moreover from t sh have "applyMMSI toy_lib (zeros Float64 4 4) f =
         err_bind (mmsi_loop toy_lib f 4 4 (scale_indices f)
                     (initial_frame (rescale_input (zeros Float64 4 4)))) finalize"
      by blast
    ultimately show ?thesis by blast
  qed
  ultimately show ?thesis using f by blast
qed

subsection \<open>Integer inputs\<close>



subsection \<open>No scales\<close>

lemma scale_indices_empty: "nrScales f \<le> 0 \<Longrightarrow> scale_indices f = []"
  by (simp add: scale_indices_def py_range_def)

text \<open>
  Claim C10. With a bank whose \<open>nrScales\<close> is zero or negative the loop runs over
  no scale, none of the five aggregate names is bound, and for an input with two
  dimensions line 169 fails on reading \<open>widthMap\<close>: the call returns no maps and no
  error about the parameter. (An input with another number of dimensions fails
  before the loop, see C3; construction returns such banks, see C2.)
\<close>

theorem no_scales_unbound:
  assumes "nrScales f \<le> 0" "length (shape img) = 2"
  shows "scale_indices f = [] \<and> applyMMSI L img f = Inl (UnboundLocalError ''widthMap'')"
proof -
  from assms(2) obtain R C where s: "shape img = [R, C]"
    by (cases "shape img" rule: list.exhaust; simp; metis length_0_conv length_Suc_conv)
  have "applyMMSI L img f = Inl (UnboundLocalError ''widthMap'')"
    using s assms(1)
    by (simp add: applyMMSI_def Let_def scale_indices_empty err_bind_def finalize_def
        initial_frame_def lookup_var_def)
  then show ?thesis using scale_indices_empty[OF assms(1)] by simp
qed

theorem no_scales_unbound_witness:
  "\<exists>f. init_filters toy_lib 1.5 0 = Inr f \<and> nrScales f \<le> 0 \<and>
       length (shape (zeros UInt8 4 4)) = 2 \<and>
       applyMMSI toy_lib (zeros UInt8 4 4) f = Inl (UnboundLocalError ''widthMap'')"
proof -
  obtain f where f: "init_filters toy_lib 1.5 0 = Inr f"
    using init_filters_succeeds[OF toy_gauss, of "1.5" 0] by auto
  have n: "nrScales f \<le> 0"
    using init_filters_kernels(2)[OF toy_gauss _ f] by simp
  have l: "length (shape (zeros UInt8 4 4)) = 2" by (simp add: zeros_def)
  show ?thesis
    using f n l no_scales_unbound[OF n l, of toy_lib] by blast
qed

subsection \<open>The running sum\<close>

lemma put_mask_maxima:
  "length xs = length ys \<Longrightarrow>
   put_mask xs (map2 (\<lambda>y x. y > x) ys xs) (take_mask ys (map2 (\<lambda>y x. y > x) ys xs))
     = map2 max xs ys"
  by (induction xs ys rule: list_induct2) (simp_all add: max_def)

lemma map2_max_plus:
  "length xs = length ys \<Longrightarrow>
   map2 (\<lambda>x y. x + y) (map2 max xs ys) ys = map2 (\<lambda>x y. max x y + y) xs (ys :: real list)"
  by (induction xs ys rule: list_induct2) simp_all

text \<open>
  The sum after the first two scales, for any two responses of the same size: at
  each pixel it is the larger of the two responses plus the second.
\<close>

lemma psi_sum_after_two_scales:
  assumes "length (data p0) = length (data p1)"
  shows "map_sum id (\<lambda>fr. map_option data (deref fr (psi_sum fr)))
           (aggregate_from ms 0 [(p0, a0), (p1, a1)] (initial_frame img))
         = Inr (Some (map2 (\<lambda>x y. max x y + y) (data p0) (data p1)))"
proof -
  have "map2 (\<lambda>x y. x + y) (map2 max (data p0) (data p1)) (data p1) =
        map2 (\<lambda>x y. max x y + y) (data p0) (data p1)"
    by (rule map2_max_plus[OF assms])
  then show ?thesis
    using assms
    by (simp add: aggregate_def initial_frame_def alloc_def deref_def err_bind_def
        lookup_var_def a_gt_def a_add_def amap2_def setitem_mask_def getitem_mask_def
        Let_def put_mask_maxima)
qed

text \<open>
  Claim C1 fails on the code. At scale 0 lines 156 and 157 bind \<open>psi_max\<close> and
  \<open>psi_sum\<close> to the same array object. At scale 1 line 163 writes the new maxima into
  that object before line 164 reads it as the old sum, so at every pixel where scale 1
  responds more strongly than scale 0 the sum holds twice the response of scale 1.
  For one pixel with responses 1 and 3 the sum of the code is 6; the sum of the
  responses is 4.
\<close>

theorem psi_sum_aliasing:
  "map_sum id (\<lambda>fr. map_option data (deref fr (psi_sum fr)))
     (aggregate_from 1.5 0 [(pixel 1, pixel 0), (pixel 3, pixel 0)] (initial_frame (pixel 0)))
   = Inr (Some [6]) \<and>
   data (a_add (pixel 1) (pixel 3)) = [4]"
  by (simp add: aggregate_def initial_frame_def alloc_def pixel_def deref_def err_bind_def
      lookup_var_def a_gt_def a_add_def a_scale_def a_sq_def amap_def amap2_def
      setitem_mask_def getitem_mask_def Let_def)

subsection \<open>The final division\<close>

lemma take_mask_pos: "list_all (\<lambda>d. 0 < d) (take_mask ys (map (\<lambda>y. 0 < y) ys))"
  by (induction ys) simp_all

lemma put_mask_quotient:
  "length xs = length ys \<Longrightarrow>
   put_mask xs (map (\<lambda>y. 0 < y) ys)
     (map2 (\<lambda>x y. x / y) (take_mask xs (map (\<lambda>y. 0 < y) ys)) (take_mask ys (map (\<lambda>y. 0 < y) ys)))
   = map2 (\<lambda>x y. if 0 < y then x / y else x) xs ys"
  by (induction xs ys rule: list_induct2) simp_all

lemma data_normalize_width:
  "length (data w) = length (data sm) \<Longrightarrow>
   data (normalize_width w sm) = map2 (\<lambda>x y. if 0 < y then x / y else x) (data w) (data sm)"
  by (simp add: normalize_width_def setitem_mask_def getitem_mask_def a_pos_def put_mask_quotient)

text \<open>
  Claim C6. In the final step (line 169) every divisor is an entry of \<open>psi_sum\<close> that
  is greater than zero, so no division by zero takes place; the returned width map
  holds the quotient at the pixels where \<open>psi_sum > 0\<close> and the accumulated width,
  unchanged, at all others. \<open>w\<close> and \<open>r\<close> are the objects that \<open>widthMap\<close> and
  \<open>psi_sum\<close> refer to when the loop ends; both arrays have the size of the image.
\<close>

theorem width_division_guarded:
  assumes "widthMap fr = Some w" "psi_sum fr = Some r" "w < length (store fr)"
    and "length (data (store fr ! w)) = length (data (store fr ! r))"
    and "finalize fr = Inr (response, width, orientation)"
  shows "list_all (\<lambda>d. 0 < d) (getitem_mask (store fr ! r) (a_pos (store fr ! r))) \<and>
         length (data width) = length (data (store fr ! w)) \<and>
         (\<forall>i < length (data width).
            data width ! i =
              (if 0 < data (store fr ! r) ! i
               then data (store fr ! w) ! i / data (store fr ! r) ! i
               else data (store fr ! w) ! i))"
proof -
  have width: "width = normalize_width (store fr ! w) (store fr ! r)"
    using assms(1,2,3,5)
    by (auto simp: finalize_def err_bind_def lookup_var_def Let_def split: option.splits)
  have d: "data width = map2 (\<lambda>x y. if 0 < y then x / y else x)
             (data (store fr ! w)) (data (store fr ! r))"
    unfolding width by (rule data_normalize_width[OF assms(4)])
  have "list_all (\<lambda>d. 0 < d) (getitem_mask (store fr ! r) (a_pos (store fr ! r)))"
    by (simp add: getitem_mask_def a_pos_def take_mask_pos)
  moreover have "length (data width) = length (data (store fr ! w))"
    using assms(4) by (simp add: d)
  moreover have "\<forall>i < length (data width).
            data width ! i =
              (if 0 < data (store fr ! r) ! i
               then data (store fr ! w) ! i / data (store fr ! r) ! i
               else data (store fr ! w) ! i)"
    using assms(4) by (simp add: d)
  ultimately show ?thesis by blast
qed

theorem width_division_guarded_witness:
  "finalize sample_frame =
     Inr (\<lparr>dtype = Float64, shape = [1, 3], data = [3, 0, 0]\<rparr>,
          \<lparr>dtype = Float64, shape = [1, 3], data = [1 / 2, 5, 7]\<rparr>,
          \<lparr>dtype = Float64, shape = [1, 3], data = [0, 0, 0]\<rparr>) \<and>
   getitem_mask (store sample_frame ! 1) (a_pos (store sample_frame ! 1)) = [4]"
proof -
  obtain p w a where fin: "finalize sample_frame = Inr (p, w, a)"
    and p: "p = \<lparr>dtype = Float64, shape = [1, 3], data = [3, 0, 0]\<rparr>"
    and a: "a = \<lparr>dtype = Float64, shape = [1, 3], data = [0, 0, 0]\<rparr>"
    and w: "dtype w = Float64" "shape w = [1, 3]"
  proof -
    have s9: "sqrt 9 = 3" using real_sqrt_abs[of 3] by simp
    show ?thesis 
    by (rule that[of "amap sqrt (store sample_frame ! 2)"
            "normalize_width (store sample_frame ! 0) (store sample_frame ! 1)"
            "store sample_frame ! 3"])
       (simp_all add: sample_frame_def finalize_def err_bind_def lookup_var_def Let_def
          normalize_width_def setitem_mask_def amap_def s9)
  qed
  have h: "widthMap sample_frame = Some 0" "psi_sum sample_frame = Some 1"
    "0 < length (store sample_frame)"
    "length (data (store sample_frame ! 0)) = length (data (store sample_frame ! 1))"
    by (simp_all add: sample_frame_def)
  note t = width_division_guarded[OF h fin]
  have l: "length (data w) = 3" using t by (simp add: sample_frame_def)
  have "data w ! 0 = 1 / 2" "data w ! 1 = 5" "data w ! 2 = 7"
    using t l by (simp_all add: sample_frame_def)
  with l have "data w = [1 / 2, 5, 7]"
    by (auto simp: length_Suc_conv numeral_3_eq_3)
  then have "w = \<lparr>dtype = Float64, shape = [1, 3], data = [1 / 2, 5, 7]\<rparr>"
    using w by simp
  moreover have "getitem_mask (store sample_frame ! 1) (a_pos (store sample_frame ! 1)) = [4]"
    by (simp add: sample_frame_def getitem_mask_def a_pos_def)
  ultimately show ?thesis using fin p a by simp
qed

subsection \<open>The all-zero image\<close>

lemma filter_contract_sep:
  assumes "filter_contract L" "image_of r c src" "0 < r" "0 < c" "is_vector kx" "is_vector ky"
  shows "\<exists>out. cv2_sepFilter2D L src kx ky = Some out \<and> image_of r c out \<and>
                (all_zero src \<longrightarrow> all_zero out)"
proof -
  from assms(1) have "\<forall>src kx ky r c.
         image_of r c src \<and> 0 < r \<and> 0 < c \<and> is_vector kx \<and> is_vector ky \<longrightarrow>
         (\<exists>out. cv2_sepFilter2D L src kx ky = Some out \<and> image_of r c out \<and>
                (all_zero src \<longrightarrow> all_zero out))"
    unfolding filter_contract_def by (rule conjunct1)
  then show ?thesis using assms(2-) by simp
qed

lemma filter_contract_fft:
  assumes "filter_contract L" "image_of r c src" "0 < r" "0 < c" "is_kernel2d k"
  shows "\<exists>out. fftconvolve_same L src k = Some out \<and> image_of r c out \<and>
                (all_zero src \<longrightarrow> all_zero out)"
proof -
  from assms(1) have "\<forall>src k r c.
         image_of r c src \<and> 0 < r \<and> 0 < c \<and> is_kernel2d k \<longrightarrow>
         (\<exists>out. fftconvolve_same L src k = Some out \<and> image_of r c out \<and>
                (all_zero src \<longrightarrow> all_zero out))"
    unfolding filter_contract_def by (rule conjunct1[OF conjunct2])
  then show ?thesis using assms(2-) by simp
qed

lemma filter_contract_resize:
  assumes "filter_contract L" "image_of r c src" "0 < r" "0 < c" "0 < w" "0 < h"
  shows "\<exists>out. cv2_resize L src (w, h) interp = Some out \<and> image_of h w out \<and>
                (all_zero src \<longrightarrow> all_zero out)"
proof -
  from assms(1) have "\<forall>src w h interp r c.
         image_of r c src \<and> 0 < r \<and> 0 < c \<and> 0 < w \<and> 0 < h \<longrightarrow>
         (\<exists>out. cv2_resize L src (w, h) interp = Some out \<and> image_of h w out \<and>
                (all_zero src \<longrightarrow> all_zero out))"
    unfolding filter_contract_def by (rule conjunct2[OF conjunct2])
  then show ?thesis using assms(2-) by blast
qed


lemma all_zero_replicate: "list_all (\<lambda>x. x = (0::real)) xs \<Longrightarrow> xs = replicate (length xs) 0"
  by (induction xs) simp_all

lemma zeros_eq: "image_of r c a \<Longrightarrow> all_zero a \<Longrightarrow> a = zeros Float64 r c"
  using all_zero_replicate[of "data a"] by (simp add: image_of_def all_zero_def zeros_def)

lemma zeros_image: "image_of r c (zeros Float64 r c)"
  by (simp add: image_of_def zeros_def)

lemma zeros_all_zero: "all_zero (zeros t r c)"
  by (simp add: all_zero_def zeros_def list_all_iff)

lemma is_vector_T: "is_vector k \<Longrightarrow> is_vector (arr_T k)"
  by (auto simp: is_vector_def arr_T_def)

lemma sepFilter2D_zeros:
  assumes "filter_contract L" "0 < r" "0 < c" "is_vector kx" "is_vector ky"
  shows "sepFilter2D L (zeros Float64 r c) kx ky = Inr (zeros Float64 r c)"
proof -
  obtain out where "cv2_sepFilter2D L (zeros Float64 r c) kx ky = Some out"
    "image_of r c out" "all_zero out"
    using filter_contract_sep[OF assms(1) zeros_image assms(2-)] zeros_all_zero by blast
  then show ?thesis by (simp add: sepFilter2D_def lib_call_def zeros_eq)
qed

lemma fftconvolve_zeros:
  assumes "filter_contract L" "0 < r" "0 < c" "is_kernel2d k"
  shows "fftconvolve L (zeros Float64 r c) k = Inr (zeros Float64 r c)"
proof -
  obtain out where "fftconvolve_same L (zeros Float64 r c) k = Some out"
    "image_of r c out" "all_zero out"
    using filter_contract_fft[OF assms(1) zeros_image assms(2-)] zeros_all_zero by blast
  then show ?thesis by (simp add: fftconvolve_def lib_call_def zeros_eq)
qed

lemma resize_zeros:
  assumes "filter_contract L" "0 < r" "0 < c" "0 < w" "0 < h"
  shows "resize L (zeros Float64 r c) (w, h) interp = Inr (zeros Float64 (nat h) (nat w))"
proof -
  have p: "0 < nat w" "0 < nat h" using assms by simp_all
  obtain out where "cv2_resize L (zeros Float64 r c) (nat w, nat h) interp = Some out"
    "image_of (nat h) (nat w) out" "all_zero out"
    using filter_contract_resize[OF assms(1) zeros_image assms(2,3) p] zeros_all_zero by blast
  then show ?thesis using assms by (simp add: resize_def lib_call_def zeros_eq)
qed

lemma amap_zeros: "g 0 = 0 \<Longrightarrow> amap g (zeros t r c) = zeros Float64 r c"
  by (simp add: amap_def zeros_def)

lemma amap2_zeros: "g 0 0 = 0 \<Longrightarrow> amap2 g (zeros t r c) (zeros t' r c) = zeros Float64 r c"
  by (simp add: amap2_def zeros_def)

lemma amap2_zeros_left:
  "(\<And>y. g 0 y = 0) \<Longrightarrow> amap2 g (zeros t r c) (amap h (zeros t' r c)) = zeros Float64 r c"
  by (simp add: amap2_def amap_def zeros_def)

lemma amap2_zeros_right:
  "(\<And>y. g y 0 = 0) \<Longrightarrow> amap2 g (amap h (zeros t' r c)) (zeros t r c) = zeros Float64 r c"
  by (simp add: amap2_def amap_def zeros_def)

lemma arctan2_zero: "arctan2 0 0 = 0"
  by (simp add: arctan2_def)

lemma angles_zeros:
  "dominant_angles (orientation_Nr (zeros Float64 r c) (zeros Float64 r c) (zeros Float64 r c))
     (orientation_Dr (zeros Float64 r c) (zeros Float64 r c) (zeros Float64 r c)) = zeros Float64 r c"
  by (simp add: dominant_angles_def orientation_Nr_def orientation_Dr_def a_scale_def a_sub_def
      a_add_def a_mul_def a_sq_def amap_zeros amap2_zeros arctan2_zero)

lemma J1_zeros:
  "directional_J1 (zeros Float64 r c) (zeros Float64 r c) (zeros Float64 r c) = zeros Float64 r c"
  by (simp add: directional_J1_def a_add_def a_mul_def amap2_zeros_left amap2_zeros)

lemma J2_zeros:
  "directional_J2 (zeros Float64 r c) (zeros Float64 r c) (zeros Float64 r c) (zeros Float64 r c)
     = zeros Float64 r c"
  by (simp add: directional_J2_def a_add_def a_mul_def amap2_zeros_right amap2_zeros amap_zeros)

lemma singularity_index_zeros:
  "singularity_index (zeros Float64 r c) (zeros Float64 r c) (zeros Float64 r c) = zeros Float64 r c"
proof -
  have q: "a_div (a_mul (amap abs (zeros Float64 r c)) (zeros Float64 r c))
             (amap (\<lambda>x. 1 + \<bar>x\<bar> ^ 2) (zeros Float64 r c)) = zeros Float64 r c"
    by (simp add: a_div_def a_mul_def amap_zeros amap2_zeros amap2_zeros_left)
  have m: "setitem_mask_scalar (zeros Float64 r c) (a_pos (zeros Float64 r c)) 0 = zeros Float64 r c"
    by (simp add: setitem_mask_scalar_def a_pos_def zeros_def put_mask_all_False)
  show ?thesis
    unfolding singularity_index_def Let_def q m by (simp add: amap_zeros)
qed

lemma a_sub_zeros: "a_sub (zeros Float64 r c) (zeros Float64 r c) = zeros Float64 r c"
  by (simp add: a_sub_def amap2_zeros)

lemma filter_chain_zeros:
  assumes L: "filter_contract L" and f: "bank_wf f" and r: "0 < r" and c: "0 < c"
  shows "sepFilter2D L (zeros Float64 r c) (Gdebias f) (arr_T (Gdebias f)) = Inr (zeros Float64 r c)"
    "fftconvolve L (zeros Float64 r c) (G20 f) = Inr (zeros Float64 r c)"
    "fftconvolve L (zeros Float64 r c) (G260 f) = Inr (zeros Float64 r c)"
    "fftconvolve L (zeros Float64 r c) (G2120 f) = Inr (zeros Float64 r c)"
    "sepFilter2D L (zeros Float64 r c) (arr_T (G1 f)) (arr_T (G0_a f)) = Inr (zeros Float64 r c)"
    "sepFilter2D L (zeros Float64 r c) (G0_a f) (G1 f) = Inr (zeros Float64 r c)"
    "sepFilter2D L (zeros Float64 r c) (G01d f) (arr_T (G01d f)) = Inr (zeros Float64 r c)"
  using f unfolding bank_wf_def
  by (simp_all add: sepFilter2D_zeros[OF L r c] fftconvolve_zeros[OF L r c] is_vector_T)

lemma scale_pass_zeros_first:
  assumes L: "filter_contract L" and f: "bank_wf f" and R: "0 < R" and C: "0 < C"
  shows "scale_pass L f R C 0 (zeros Float64 R C) =
           Inr (zeros Float64 R C, zeros Float64 R C, zeros Float64 R C)"
  unfolding scale_pass_def Let_def
  by (simp add: err_bind_def filter_chain_zeros[OF L f R C] a_sub_zeros angles_zeros J1_zeros
      J2_zeros singularity_index_zeros)

lemma scale_pass_zeros_next:
  assumes L: "filter_contract L" and f: "bank_wf f" and R: "0 < R" and C: "0 < C"
    and r: "0 < r" and c: "0 < c" and s: "0 < s"
    and sR: "0 < scaled_side R s" and sC: "0 < scaled_side C s"
  shows "scale_pass L f R C s (zeros Float64 r c) =
           Inr (zeros Float64 (nat (scaled_side R s)) (nat (scaled_side C s)),
                zeros Float64 R C, zeros Float64 R C)"
proof -
  have p: "0 < nat (scaled_side R s)" "0 < nat (scaled_side C s)" using sR sC by simp_all
  have down: "resize L (zeros Float64 r c) (scaled_side C s, scaled_side R s) INTER_CUBIC =
      Inr (zeros Float64 (nat (scaled_side R s)) (nat (scaled_side C s)))"
    by (rule resize_zeros[OF L r c sC sR])
  have up: "\<And>interp. resize L (zeros Float64 (nat (scaled_side R s)) (nat (scaled_side C s)))
           (int C, int R) interp = Inr (zeros Float64 R C)"
    using resize_zeros[OF L p, of "int C" "int R"] R C by simp
  show ?thesis
    unfolding scale_pass_def Let_def
    using s
    by (simp add: err_bind_def down up filter_chain_zeros[OF L f p] a_sub_zeros angles_zeros
        J1_zeros J2_zeros singularity_index_zeros)
qed

lemma setitem_mask_zeros:
  "setitem_mask (zeros t r c) idx (getitem_mask (zeros t' r c) idx) = zeros t r c"
proof -
  have z: "list_all (\<lambda>x. x = 0) (replicate (r * c) (0::real))" by (simp add: list_all_iff)
  have "list_all (\<lambda>x. x = 0)
          (put_mask (replicate (r * c) 0) idx (take_mask (replicate (r * c) 0) idx))"
    by (intro list_all_put_mask list_all_take_mask z)
  from all_zero_replicate[OF this]
  show ?thesis by (simp add: setitem_mask_def getitem_mask_def zeros_def length_put_mask)
qed

lemma a_scale_zeros: "a_scale k (zeros Float64 r c) = zeros Float64 r c"
  by (simp add: a_scale_def amap_zeros)

lemma a_sq_zeros: "a_sq (zeros Float64 r c) = zeros Float64 r c"
  by (simp add: a_sq_def amap_zeros)

lemma a_add_zeros: "a_add (zeros Float64 r c) (zeros Float64 r c) = zeros Float64 r c"
  by (simp add: a_add_def amap2_zeros)

lemma list_all_nth: "list_all P xs \<Longrightarrow> i < length xs \<Longrightarrow> P (xs ! i)"
  by (simp add: list_all_length)

lemma list_all_update: "list_all P xs \<Longrightarrow> P x \<Longrightarrow> list_all P (xs[i := x])"
  by (auto simp: list_all_iff dest: set_update_subset_insert[THEN subsetD])

lemma aggregate_zeros_first:
  assumes "store fr = []"
  shows "\<exists>fr'. aggregate ms 0 (zeros Float64 R C) (zeros Float64 R C) fr = Inr fr' \<and>
           zero_frame R C fr' \<and> I1 fr' = I1 fr"
  using assms
  by (simp add: aggregate_def alloc_def zero_frame_def a_scale_zeros a_sq_zeros)

lemma aggregate_zeros_next:
  assumes z: "zero_frame R C fr" and s: "s \<noteq> 0"
  shows "\<exists>fr'. aggregate ms s (zeros Float64 R C) (zeros Float64 R C) fr = Inr fr' \<and>
           zero_frame R C fr' \<and> I1 fr' = I1 fr"
proof -
  from z obtain p r a w q where b: "psi_max fr = Some p" "psi_sum fr = Some r"
    "orient fr = Some a" "widthMap fr = Some w" "psi fr = Some q"
    and l: "p < length (store fr)" "r < length (store fr)" "a < length (store fr)"
    "w < length (store fr)" "q < length (store fr)"
    unfolding zero_frame_def by blast
  from z have st: "list_all (\<lambda>a. a = zeros Float64 R C) (store fr)"
    unfolding zero_frame_def by blast
  have n: "\<And>i. i < length (store fr) \<Longrightarrow> store fr ! i = zeros Float64 R C"
    using list_all_nth[OF st] by blast
  show ?thesis
    using s b l st
    by (simp add: aggregate_def err_bind_def lookup_var_def Let_def alloc_def zero_frame_def
        n setitem_mask_zeros a_add_zeros a_scale_zeros a_sq_zeros nth_append list_all_update
        nth_list_update)
qed

lemma zero_frame_I1 [simp]: "zero_frame R C (fr\<lparr>I1 := x\<rparr>) = zero_frame R C fr"
  by (simp add: zero_frame_def)

lemma loop_body_zeros_first:
  assumes L: "filter_contract L" and f: "bank_wf f" and R: "0 < R" and C: "0 < C"
  shows "\<exists>fr'. loop_body L f R C 0 (initial_frame (zeros Float64 R C)) = Inr fr' \<and>
           zero_frame R C fr' \<and> I1 fr' = zeros Float64 R C"
proof -
  have "store (initial_frame (zeros Float64 R C)\<lparr>I1 := zeros Float64 R C\<rparr>) = []"
    by (simp add: initial_frame_def)
  from aggregate_zeros_first[OF this, of "minScale f" R C]
  show ?thesis
    by (simp add: loop_body_def err_bind_def scale_pass_zeros_first[OF L f R C] initial_frame_def)
qed

lemma loop_body_zeros_next:
  assumes L: "filter_contract L" and f: "bank_wf f" and R: "0 < R" and C: "0 < C"
    and z: "zero_frame R C fr" and i: "I1 fr = zeros Float64 r c" and r: "0 < r" and c: "0 < c"
    and s: "0 < s" and sR: "0 < scaled_side R s" and sC: "0 < scaled_side C s"
  shows "\<exists>fr'. loop_body L f R C s fr = Inr fr' \<and> zero_frame R C fr' \<and>
           I1 fr' = zeros Float64 (nat (scaled_side R s)) (nat (scaled_side C s))"
proof -
  have z': "zero_frame R C (fr\<lparr>I1 := zeros Float64 (nat (scaled_side R s)) (nat (scaled_side C s))\<rparr>)"
    using z by simp
  have s0: "s \<noteq> 0" using s by simp
  from aggregate_zeros_next[OF z' s0, of "minScale f"]
  show ?thesis
    by (simp add: loop_body_def err_bind_def i scale_pass_zeros_next[OF L f R C r c s sR sC])
qed

lemma mmsi_loop_zeros_rest:
  assumes L: "filter_contract L" and f: "bank_wf f" and R: "0 < R" and C: "0 < C"
    and ss: "list_all (\<lambda>s. 0 < s \<and> 0 < scaled_side R s \<and> 0 < scaled_side C s) ss"
    and z: "zero_frame R C fr" and i: "I1 fr = zeros Float64 r c" and r: "0 < r" and c: "0 < c"
  shows "\<exists>fr'. mmsi_loop L f R C ss fr = Inr fr' \<and> zero_frame R C fr'"
  using ss z i r c
proof (induction ss arbitrary: fr r c)
  case Nil
  then show ?case by simp
next
  case (Cons s ss)
  from Cons.prems(1) have s: "0 < s" "0 < scaled_side R s" "0 < scaled_side C s"
    and rest: "list_all (\<lambda>s. 0 < s \<and> 0 < scaled_side R s \<and> 0 < scaled_side C s) ss"
    by simp_all
  from loop_body_zeros_next[OF L f R C Cons.prems(2,3,4,5) s]
  obtain fr' where b: "loop_body L f R C s fr = Inr fr'" "zero_frame R C fr'"
    "I1 fr' = zeros Float64 (nat (scaled_side R s)) (nat (scaled_side C s))"
    by blast
  have p: "0 < nat (scaled_side R s)" "0 < nat (scaled_side C s)" using s by simp_all
  from Cons.IH[OF rest b(2,3) p] show ?case by (simp add: b(1))
qed

lemma normalize_width_zeros:
  "normalize_width (zeros Float64 r c) (zeros Float64 r c) = zeros Float64 r c"
  by (simp add: normalize_width_def setitem_mask_def a_pos_def zeros_def put_mask_all_False)

lemma finalize_zeros:
  assumes "zero_frame R C fr"
  shows "finalize fr = Inr (zeros Float64 R C, zeros Float64 R C, zeros Float64 R C)"
proof -
  from assms obtain p r a w q where b: "psi_max fr = Some p" "psi_sum fr = Some r"
    "orient fr = Some a" "widthMap fr = Some w" "psi fr = Some q"
    and l: "p < length (store fr)" "r < length (store fr)" "a < length (store fr)"
    "w < length (store fr)" "q < length (store fr)"
    unfolding zero_frame_def by blast
  from assms have st: "list_all (\<lambda>a. a = zeros Float64 R C) (store fr)"
    unfolding zero_frame_def by blast
  have n: "\<And>i. i < length (store fr) \<Longrightarrow> store fr ! i = zeros Float64 R C"
    using list_all_nth[OF st] by blast
  show ?thesis
    using b l
    by (simp add: finalize_def err_bind_def lookup_var_def Let_def n normalize_width_zeros
        nth_list_update amap_zeros)
qed

lemma scale_indices_Cons:
  assumes "1 \<le> nrScales f"
  shows "scale_indices f = 0 # map nat [1..nrScales f - 1]"
  using assms by (simp add: scale_indices_def py_range_def upto_rec1[of 0])

lemma rescale_input_zeros:
  assumes "dtype img \<noteq> OtherDtype" "shape img = [R, C]" "data img = replicate (R * C) 0"
  shows "rescale_input img = zeros Float64 R C"
  using assms
  by (cases "dtype img") (simp_all add: rescale_input_def astype_float_div_def zeros_def)

lemma applyMMSI_zeros:
  assumes L: "filter_contract L" and f: "bank_wf f" and n: "1 \<le> nrScales f"
    and img: "dtype img \<noteq> OtherDtype" "shape img = [R, C]" "data img = replicate (R * C) 0"
    and R: "0 < R" and C: "0 < C"
    and sizes: "\<forall>s. 0 < s \<and> s < nat (nrScales f) \<longrightarrow> 0 < scaled_side R s \<and> 0 < scaled_side C s"
  shows "applyMMSI L img f = Inr (zeros Float64 R C, zeros Float64 R C, zeros Float64 R C)"
proof -
  have ri: "rescale_input img = zeros Float64 R C" by (rule rescale_input_zeros[OF img])
  obtain fr1 where b1: "loop_body L f R C 0 (initial_frame (zeros Float64 R C)) = Inr fr1"
    "zero_frame R C fr1" "I1 fr1 = zeros Float64 R C"
    using loop_body_zeros_first[OF L f R C] by blast
  have rest: "list_all (\<lambda>s. 0 < s \<and> 0 < scaled_side R s \<and> 0 < scaled_side C s)
                (map nat [1..nrScales f - 1])"
    using sizes by (auto simp: list_all_iff)
  obtain fr2 where b2: "mmsi_loop L f R C (map nat [1..nrScales f - 1]) fr1 = Inr fr2"
    "zero_frame R C fr2"
    using mmsi_loop_zeros_rest[OF L f R C rest b1(2,3) R C] by blast
  have "mmsi_loop L f R C (scale_indices f) (initial_frame (zeros Float64 R C)) = Inr fr2"
    by (simp add: scale_indices_Cons[OF n] b1(1) b2(1))
  moreover have "shape (zeros Float64 R C) = [R, C]" by (simp add: zeros_def)
  ultimately show ?thesis
    by (simp add: applyMMSI_def Let_def ri err_bind_def finalize_zeros[OF b2(2)])
qed

lemma init_filters_bank_wf:
  assumes L: "gauss_contract L" and ms: "0 < ms" and f: "init_filters L ms n = Inr f"
  shows "bank_wf f"
proof -
  note k = init_filters_kernels[OF L ms f]
  have kd: "0 < nat (2 * ksized ms + 1)" using ksized_nonneg[OF ms] by simp
  have k2: "0 < nat (2 * ksize2 ms + 1)" using ksize2_pos[OF ms] by simp
  have k1: "0 < nat (2 * ksize1 ms + 1)" using ksize1_pos[OF ms] by simp
  have "is_vector (Gdebias f)" using k(3,4) kd by (auto simp: is_vector_def)
  moreover have "is_vector (G01d f)" using k(5,6) k2 by (auto simp: is_vector_def)
  moreover have "is_vector (G0_a f)" using k(13,14) k1 by (auto simp: is_vector_def)
  moreover have "is_vector (G1 f)" using k(15,16) k1 by (auto simp: is_vector_def)
  moreover have "is_kernel2d (G20 f)" using k(7,8) k2 by (auto simp: is_kernel2d_def)
  moreover have "is_kernel2d (G260 f)" using k(9,10) k2 by (auto simp: is_kernel2d_def)
  moreover have "is_kernel2d (G2120 f)" using k(11,12) k2 by (auto simp: is_kernel2d_def)
  ultimately show ?thesis by (simp add: bank_wf_def)
qed

lemma toy_filters: "filter_contract toy_lib"
  unfolding filter_contract_def
proof (intro conjI allI impI)
  fix src kx ky r c
  assume "image_of r c src \<and> 0 < r \<and> 0 < c \<and> is_vector kx \<and> is_vector ky"
  then show "\<exists>out. cv2_sepFilter2D toy_lib src kx ky = Some out \<and> image_of r c out \<and>
                (all_zero src \<longrightarrow> all_zero out)"
    by (simp add: toy_lib_def amap_def image_of_def all_zero_def list_all_iff)
next
  fix src k r c
  assume "image_of r c src \<and> 0 < r \<and> 0 < c \<and> is_kernel2d k"
  then show "\<exists>out. fftconvolve_same toy_lib src k = Some out \<and> image_of r c out \<and>
                (all_zero src \<longrightarrow> all_zero out)"
    by (simp add: toy_lib_def amap_def image_of_def all_zero_def list_all_iff)
next
  fix src w h interp r c
  assume a: "image_of r c src \<and> 0 < r \<and> 0 < (c::nat) \<and> 0 < (w::nat) \<and> 0 < (h::nat)"
  then have "length (data src) = r * c" "0 < r * c" by (simp_all add: image_of_def)
  then obtain x xs where "data src = x # xs" by (cases "data src") auto
  then show "\<exists>out. cv2_resize toy_lib src (w, h) interp = Some out \<and> image_of h w out \<and>
                (all_zero src \<longrightarrow> all_zero out)"
    by (simp add: toy_lib_def image_of_def all_zero_def list_all_iff)
qed

lemma toy_nearest: "nearest_contract toy_lib"
  by (auto simp: nearest_contract_def toy_lib_def split: list.splits)

lemma scaled_side_pos:
  assumes "sqrt 2 ^ s \<le> real n"
  shows "0 < scaled_side n s"
proof -
  have p: "0 < sqrt 2 ^ s" by simp
  then have "1 \<le> real n / sqrt 2 ^ s" using assms by (simp add: pos_le_divide_eq)
  then have "1 \<le> \<lfloor>real n / sqrt 2 ^ s\<rfloor>" by linarith
  moreover have "0 \<le> real n / sqrt 2 ^ s" using p by simp
  ultimately show ?thesis by (simp add: scaled_side_def py_int_def)
qed


lemma scale_pass_empty_size:
  assumes "0 < s" "scaled_side C s \<le> 0 \<or> scaled_side R s \<le> 0"
  shows "scale_pass L f R C s img = Inl (LibraryError ''resize'')"
  using assms unfolding scale_pass_def by (auto simp: err_bind_def resize_def)

lemma applyMMSI_2d:
  "shape img = [R, C] \<Longrightarrow>
   applyMMSI L img f =
     err_bind (mmsi_loop L f R C (scale_indices f) (initial_frame (rescale_input img))) finalize"
  by (simp add: applyMMSI_def Let_def)

lemma mmsi_loop_empty_size:
  assumes "s \<in> set ss" "0 < s" "scaled_side C s \<le> 0 \<or> scaled_side R s \<le> 0"
  shows "isl (mmsi_loop L f R C ss fr)"
  using assms(1)
proof (induction ss arbitrary: fr)
  case Nil
  then show ?case by simp
next
  case (Cons t ss)
  show ?case
  proof (cases "loop_body L f R C t fr")
    case (Inl e)
    then show ?thesis by simp
  next
    case (Inr fr')
    have "t \<noteq> s"
    proof
      assume "t = s"
      then have "loop_body L f R C t fr = Inl (LibraryError ''resize'')"
        using scale_pass_empty_size[OF assms(2,3), of L f "I1 fr"]
        by (simp add: loop_body_def err_bind_def)
      with Inr show False by simp
    qed
    with Cons.prems have "s \<in> set ss" by simp
    from Cons.IH[OF this] show ?thesis by (simp add: Inr)
  qed
qed

text \<open>
  With any library, the call raises as soon as one of the scales after scale 0 asks
  for an empty size.
\<close>

lemma applyMMSI_too_small:
  assumes "shape img = [R, C]" "0 < s" "int s < nrScales f"
    and "scaled_side C s \<le> 0 \<or> scaled_side R s \<le> 0"
  shows "isl (applyMMSI L img f)"
proof -
  have "int s \<in> set (py_range 0 (nrScales f))"
    using assms(3) by (simp add: py_range_def)
  then have "nat (int s) \<in> set (scale_indices f)"
    unfolding scale_indices_def set_map by (rule imageI)
  then have "s \<in> set (scale_indices f)" by simp
  from mmsi_loop_empty_size[OF this assms(2,4)]
  have "isl (mmsi_loop L f R C (scale_indices f) (initial_frame (rescale_input img)))" .
  then show ?thesis
    unfolding applyMMSI_2d[OF assms(1)]
    by (cases "mmsi_loop L f R C (scale_indices f) (initial_frame (rescale_input img))")
       (simp_all add: err_bind_def)
qed

lemma sizes_4: "s < 3 \<Longrightarrow> 0 < scaled_side 4 s"
proof (rule scaled_side_pos)
  assume "s < 3"
  then have "s \<le> 2" by simp
  then have "sqrt 2 ^ s \<le> sqrt 2 ^ 2" by (intro power_increasing) simp_all
  then show "sqrt 2 ^ s \<le> real 4" by simp
qed





subsection \<open>The orientation map\<close>

lemma arctan2_range: "- pi < arctan2 y x \<and> arctan2 y x \<le> pi"
proof -
  have b: "- (pi / 2) < arctan (y / x)" "arctan (y / x) < pi / 2"
    using arctan_bounded[of "y / x"] by simp_all
  consider "0 < x" | "x < 0" "0 \<le> y" | "x < 0" "y < 0" | "x = 0"
    by linarith
  then show ?thesis
  proof cases
    case 1
    then show ?thesis using b pi_gt_zero by (simp add: arctan2_def)
  next
    case 2
    then have "y / x \<le> 0" by (simp add: divide_nonneg_neg)
    then have "arctan (y / x) \<le> 0" using arctan_le_zero_iff by blast
    then show ?thesis using 2 b by (simp add: arctan2_def)
  next
    case 3
    then have "0 < y / x" by (simp add: divide_neg_neg)
    then have "0 < arctan (y / x)" using zero_less_arctan_iff by blast
    then show ?thesis using 3 b by (simp add: arctan2_def)
  next
    case 4
    have "arctan2 y x = pi / 2 \<or> arctan2 y x = - (pi / 2) \<or> arctan2 y x = 0"
      using 4 by (simp add: arctan2_def)
    then show ?thesis using pi_gt_zero by linarith
  qed
qed

lemma half_arctan2: "in_half_turn (arctan2 y x / 2)"
  using arctan2_range[of y x] by (simp add: in_half_turn_def)

lemma dominant_angles_range: "list_all in_half_turn (data (dominant_angles Nr Dr))"
  by (simp add: dominant_angles_def amap_def amap2_def list_all_iff half_arctan2 split: prod.splits)


lemma resize_nearest_subset:
  assumes "nearest_contract L"
  shows "outcome (\<lambda>e. True) (\<lambda>out. set (data out) \<subseteq> set (data src))
           (resize L src dsize INTER_NEAREST)"
proof (cases dsize)
  case (Pair w h)
  show ?thesis
  proof (cases "cv2_resize L src (nat w, nat h) INTER_NEAREST")
    case None
    then show ?thesis by (simp add: Pair resize_def lib_call_def outcome_def)
  next
    case (Some out)
    then have "set (data out) \<subseteq> set (data src)"
      using assms unfolding nearest_contract_def by blast
    then show ?thesis using Some by (simp add: Pair resize_def lib_call_def outcome_def)
  qed
qed

lemma list_all_subset: "list_all P xs \<Longrightarrow> set ys \<subseteq> set xs \<Longrightarrow> list_all P ys"
  by (auto simp: list_all_iff)

lemma scale_pass_angles:
  assumes "nearest_contract L"
  shows "outcome (\<lambda>e. True) (\<lambda>(I1', psi_scale, angles). list_all in_half_turn (data angles))
           (scale_pass L f R C s img)"
  unfolding scale_pass_def Let_def
  apply (rule outcome_bind[OF outcome_any])+
  apply (cases "0 < s")
   apply simp
   apply (rule outcome_bind[OF outcome_any])
   apply (rule outcome_bind[OF resize_nearest_subset[OF assms]])
   apply (rule outcome_Inr)
   apply (simp add: list_all_subset[OF dominant_angles_range])
  apply (simp add: outcome_def dominant_angles_range)
  done

lemma setitem_in_half_turn:
  "list_all in_half_turn (data a) \<Longrightarrow> list_all in_half_turn (data b) \<Longrightarrow>
   list_all in_half_turn (data (setitem_mask a idx (getitem_mask b idx)))"
  by (simp add: setitem_mask_def getitem_mask_def list_all_put_mask list_all_take_mask)

lemma aggregate_first_orient_inv:
  assumes "list_all in_half_turn (data angles)"
  shows "outcome (\<lambda>e. True) orient_inv (aggregate ms 0 psi_scale angles fr)"
  using assms
  by (simp add: aggregate_def alloc_def outcome_def orient_inv_def nth_append)

lemma aggregate_next_orient_inv:
  assumes inv: "orient_inv fr" and ang: "list_all in_half_turn (data angles)" and s: "s \<noteq> 0"
  shows "outcome (\<lambda>e. True) orient_inv (aggregate ms s psi_scale angles fr)"
proof (cases "\<exists>p r a w q. psi_max fr = Some p \<and> psi_sum fr = Some r \<and> orient fr = Some a \<and>
                widthMap fr = Some w \<and> psi fr = Some q")
  case False
  then have "isl (aggregate ms s psi_scale angles fr)"
    using s
    by (cases "psi_max fr"; cases "psi_sum fr"; cases "orient fr"; cases "widthMap fr"; cases "psi fr")
       (simp_all add: aggregate_def err_bind_def lookup_var_def Let_def alloc_def)
  then show ?thesis by (cases "aggregate ms s psi_scale angles fr") (simp_all add: outcome_def)
next
  case True
  then obtain p r a w q where b: "psi_max fr = Some p" "psi_sum fr = Some r" "orient fr = Some a"
    "widthMap fr = Some w" "psi fr = Some q" by blast
  from inv b have a: "a < length (store fr)" "list_all in_half_turn (data (store fr ! a))"
    "p \<noteq> a" "w \<noteq> a"
    by (auto simp: orient_inv_def)
  show ?thesis
    using s a b ang
    by (simp add: aggregate_def err_bind_def lookup_var_def Let_def alloc_def outcome_def
        orient_inv_def nth_append setitem_in_half_turn)
qed

lemma aggregate_orient_inv:
  assumes "orient_inv fr" "list_all in_half_turn (data angles)"
  shows "outcome (\<lambda>e. True) orient_inv (aggregate ms s psi_scale angles fr)"
  using aggregate_first_orient_inv[OF assms(2)] aggregate_next_orient_inv[OF assms]
  by (cases "s = 0") simp_all

lemma orient_inv_I1 [simp]: "orient_inv (fr\<lparr>I1 := x\<rparr>) = orient_inv fr"
  by (simp add: orient_inv_def split: option.splits)

lemma loop_body_orient_inv:
  assumes "nearest_contract L" "orient_inv fr"
  shows "outcome (\<lambda>e. True) orient_inv (loop_body L f R C s fr)"
  unfolding loop_body_def
  by (rule outcome_bind[OF scale_pass_angles[OF assms(1)]])
     (auto intro: aggregate_orient_inv simp: assms(2))

lemma mmsi_loop_orient_inv:
  assumes "nearest_contract L" "orient_inv fr"
  shows "outcome (\<lambda>e. True) orient_inv (mmsi_loop L f R C ss fr)"
  using assms(2)
proof (induction ss arbitrary: fr)
  case Nil
  then show ?case by (simp add: outcome_def)
next
  case (Cons s ss)
  show ?case
  proof (cases "loop_body L f R C s fr")
    case (Inl e)
    then show ?thesis by (simp add: outcome_def)
  next
    case (Inr fr')
    with loop_body_orient_inv[OF assms(1) Cons.prems, of f R C s] have "orient_inv fr'"
      by (simp add: outcome_def)
    from Cons.IH[OF this] show ?thesis by (simp add: Inr)
  qed
qed

lemma finalize_orient:
  assumes "orient_inv fr" "finalize fr = Inr (response, width, orientation)"
  shows "list_all in_half_turn (data orientation)"
  using assms
  by (auto simp: finalize_def err_bind_def lookup_var_def Let_def orient_inv_def
      split: option.splits)

text \<open>
  Claim C7. Every entry of the orientation map that \<^verbatim>\<open>applyMMSI\<close> returns lies in
  \<open>(-\<pi>/2, \<pi>/2]\<close>: the angles of a scale are halves of \<^verbatim>\<open>arctan2\<close> values, and
  nearest-neighbour resizing (which copies entries of its input) and the copying at
  the pixels of a new maximum make no new values. The in-place writes of lines 163 and
  169 go to other objects than the one \<open>orient\<close> refers to.
\<close>

theorem orientation_in_half_turn:
  assumes "nearest_contract L" "applyMMSI L img f = Inr (response, width, orientation)"
  shows "\<forall>x \<in> set (data orientation). - (pi / 2) < x \<and> x \<le> pi / 2"
proof -
  from assms(2) obtain R C fr where
    l: "mmsi_loop L f R C (scale_indices f) (initial_frame (rescale_input img)) = Inr fr"
    and fin: "finalize fr = Inr (response, width, orientation)"
    by (auto simp: applyMMSI_def Let_def err_bind_def split: if_splits list.splits sum.splits)
  have "orient_inv (initial_frame (rescale_input img))"
    by (simp add: orient_inv_def initial_frame_def)
  from mmsi_loop_orient_inv[OF assms(1) this, of f R C "scale_indices f"] l
  have "orient_inv fr" by (simp add: outcome_def)
  from finalize_orient[OF this fin] show ?thesis
    by (simp add: list_all_iff in_half_turn_def)
qed

theorem orientation_in_half_turn_witness:
  "\<exists>f response width orientation.
     init_filters toy_lib 1.5 3 = Inr f \<and>
     applyMMSI toy_lib (zeros Float64 4 4) f = Inr (response, width, orientation) \<and>
     data orientation = replicate 16 0 \<and>
     list_all (\<lambda>x. - (pi / 2) < x \<and> x \<le> pi / 2) (data orientation)"
proof -
  obtain f where f: "init_filters toy_lib 1.5 3 = Inr f"
    using init_filters_succeeds[OF toy_gauss, of "1.5" 3] by auto
  have wf: "bank_wf f" using init_filters_bank_wf[OF toy_gauss _ f] by simp
  have n: "nrScales f = 3" using init_filters_kernels(2)[OF toy_gauss _ f] by simp
  have r: "applyMMSI toy_lib (zeros Float64 4 4) f =
      Inr (zeros Float64 4 4, zeros Float64 4 4, zeros Float64 4 4)"
    using applyMMSI_zeros[OF toy_filters wf, of "zeros Float64 4 4" 4 4] n sizes_4
    by (simp add: zeros_def)
  from orientation_in_half_turn[OF toy_nearest r]
  have "list_all (\<lambda>x. - (pi / 2) < x \<and> x \<le> pi / 2) (data (zeros Float64 4 4))"
    by (simp add: list_all_iff)
  then show ?thesis using f r by (auto simp: zeros_def)
qed

end
